theory Spec2Isabelle
  imports Complex_Main
begin

section \<open>Ant colony simulation: the model of sim.py\<close>

text \<open>
  Python floats are modelled as real numbers and Python integers as \<open>int\<close>. The calls to
  \<open>random.uniform\<close> are modelled by explicit arguments: \<open>rw\<close> is the value that
  \<open>random.uniform(-1, 1)\<close> returns for the wander term and \<open>rj\<close> the value that
  \<open>random.uniform(-0.5, 0.5)\<close> returns for the boundary jitter, when the code asks for them.
  A numpy grid of shape (SCREEN_HEIGHT, SCREEN_WIDTH) is a function from the row \<open>y\<close> and the
  column \<open>x\<close> to the cell; the code reads and writes a cell only after its bounds test.
\<close>

subsection \<open>Constants\<close>

definition SCREEN_WIDTH :: int where "SCREEN_WIDTH = 1280"
definition SCREEN_HEIGHT :: int where "SCREEN_HEIGHT = 720"
definition ANT_COUNT :: nat where "ANT_COUNT = 200"
definition ANT_SPEED :: real where "ANT_SPEED = 3 / 2"
definition ANT_ROTATION_SPEED :: real where "ANT_ROTATION_SPEED = 2 / 10"
definition ANT_SENSOR_ANGLE :: real where "ANT_SENSOR_ANGLE = pi / 4"
definition ANT_SENSOR_DISTANCE :: real where "ANT_SENSOR_DISTANCE = 10"
definition WANDER_STRENGTH :: real where "WANDER_STRENGTH = 3 / 10"
definition EVAPORATION_RATE :: real where "EVAPORATION_RATE = 998 / 1000"
definition DIFFUSION_INTERVAL :: int where "DIFFUSION_INTERVAL = 5"
definition MAX_PHEROMONE :: real where "MAX_PHEROMONE = 1000"
definition PHEROMONE_DEPOSIT_AMOUNT :: real where "PHEROMONE_DEPOSIT_AMOUNT = 500"
definition NEST_GRAVITY_STRENGTH :: real where "NEST_GRAVITY_STRENGTH = 1 / 10"
definition MAX_PATIENCE :: int where "MAX_PATIENCE = 300"
definition PANIC_DURATION :: int where "PANIC_DURATION = 100"

subsection \<open>Python and numpy primitives\<close>

text \<open>\<open>int(r)\<close> on a float truncates toward zero.\<close>

definition py_int :: "real \<Rightarrow> int" where
  "py_int r = (if 0 \<le> r then \<lfloor>r\<rfloor> else \<lceil>r\<rceil>)"

text \<open>\<open>a % b\<close> on floats takes the sign of the divisor.\<close>

definition py_mod :: "real \<Rightarrow> real \<Rightarrow> real" where
  "py_mod a b = a - b * of_int \<lfloor>a / b\<rfloor>"

text \<open>\<open>math.atan2(y, x)\<close>, with \<open>atan2(0, 0) = 0\<close>.\<close>

definition atan2 :: "real \<Rightarrow> real \<Rightarrow> real" where
  "atan2 y x =
     (if 0 < x then arctan (y / x)
      else if x < 0 \<and> 0 \<le> y then arctan (y / x) + pi
      else if x < 0 then arctan (y / x) - pi
      else if 0 < y then pi / 2
      else if y < 0 then - (pi / 2)
      else 0)"

type_synonym vec = "real \<times> real"

definition vadd :: "vec \<Rightarrow> vec \<Rightarrow> vec" where
  "vadd p q = (fst p + fst q, snd p + snd q)"

definition vsub :: "vec \<Rightarrow> vec \<Rightarrow> vec" where
  "vsub p q = (fst p - fst q, snd p - snd q)"

definition smul :: "real \<Rightarrow> vec \<Rightarrow> vec" where
  "smul k p = (k * fst p, k * snd p)"

text \<open>\<open>np.array([math.cos(t), math.sin(t)])\<close>.\<close>

definition heading :: "real \<Rightarrow> vec" where
  "heading t = (cos t, sin t)"

text \<open>\<open>np.linalg.norm\<close> of a vector of two components.\<close>

definition vnorm :: "vec \<Rightarrow> real" where
  "vnorm p = sqrt ((fst p)\<^sup>2 + (snd p)\<^sup>2)"

text \<open>\<open>np.clip(v, lo, hi)\<close> on one component.\<close>

definition clip :: "real \<Rightarrow> real \<Rightarrow> real \<Rightarrow> real" where
  "clip v lo hi = min hi (max v lo)"

subsection \<open>Data\<close>

datatype task = SEARCHING | CARRYING_FOOD

record ant =
  pos :: vec
  angle :: real
  speed :: real
  state :: task
  patience :: int
  panic_timer :: int

record food =
  food_pos :: vec
  amount :: int

type_synonym grid = "int \<Rightarrow> int \<Rightarrow> real"

text \<open>What an ant's update reads and mutates besides the ant itself.\<close>

record world =
  home_pheromones :: grid
  food_pheromones :: grid
  foods :: "food list"

text \<open>\<open>Ant.__init__\<close>, with the initial heading \<open>a0\<close> drawn by \<open>random.uniform(0, 2 * pi)\<close>.\<close>

definition new_ant :: "real \<Rightarrow> real \<Rightarrow> real \<Rightarrow> ant" where
  "new_ant x y a0 =
     \<lparr>pos = (x, y), angle = a0, speed = ANT_SPEED, state = SEARCHING,
      patience = MAX_PATIENCE, panic_timer = 0\<rparr>"

subsection \<open>The pheromone field\<close>

definition in_grid :: "int \<Rightarrow> int \<Rightarrow> bool" where
  "in_grid x y \<longleftrightarrow> 0 \<le> x \<and> x < SCREEN_WIDTH \<and> 0 \<le> y \<and> y < SCREEN_HEIGHT"

text \<open>The local function \<open>get_pheromone_value\<close> of \<open>Ant.update\<close>.\<close>

definition get_pheromone_value :: "vec \<Rightarrow> grid \<Rightarrow> real" where
  "get_pheromone_value p g =
     (let x = py_int (fst p); y = py_int (snd p)
      in if in_grid x y then g y x else 0)"

text \<open>
  The deposit that \<open>interact_with_objects\<close> writes out twice, once for each grid:
  \<open>x, y = int(pos[0]), int(pos[1])\<close>, the bounds test, and the saturating addition.
\<close>

definition deposit :: "vec \<Rightarrow> real \<Rightarrow> grid \<Rightarrow> grid" where
  "deposit p amt g =
     (let x = py_int (fst p); y = py_int (snd p)
      in if in_grid x y
         then g(y := (g y)(x := min MAX_PHEROMONE (g y x + amt)))
         else g)"

text \<open>\<open>grid *= EVAPORATION_RATE\<close>.\<close>

definition evaporate :: "grid \<Rightarrow> grid" where
  "evaporate g = (\<lambda>y x. g y x * EVAPORATION_RATE)"

subsection \<open>The agent\<close>

definition handle_boundaries :: "real \<Rightarrow> ant \<Rightarrow> ant" where
  "handle_boundaries rj a =
     (let x = fst (pos a); y = snd (pos a)
      in if \<not> (20 < x \<and> x < real_of_int SCREEN_WIDTH - 20 \<and>
                20 < y \<and> y < real_of_int SCREEN_HEIGHT - 20)
         then a\<lparr>pos := (clip x 20 (real_of_int SCREEN_WIDTH - 20),
                          clip y 20 (real_of_int SCREEN_HEIGHT - 20)),
                 angle := angle a + (pi + rj)\<rparr>
         else a)"

text \<open>\<open>self.pos += self.speed * np.array([cos(angle), sin(angle)])\<close>.\<close>

definition move :: "ant \<Rightarrow> ant" where
  "move a = a\<lparr>pos := vadd (pos a) (smul (speed a) (heading (angle a)))\<rparr>"

text \<open>The panic branch of \<open>Ant.update\<close>.\<close>

definition panic_update :: "real \<Rightarrow> real \<Rightarrow> ant \<Rightarrow> ant" where
  "panic_update rw rj a =
     (let a1 = a\<lparr>angle := angle a + rw * WANDER_STRENGTH * 2\<rparr>;
          a2 = move a1;
          a3 = a2\<lparr>panic_timer := panic_timer a2 - 1\<rparr>
      in handle_boundaries rj a3)"

text \<open>The position of a sensor at the offset \<open>off\<close> from the heading.\<close>

definition sensor_pos :: "ant \<Rightarrow> real \<Rightarrow> vec" where
  "sensor_pos a off = vadd (pos a) (smul ANT_SENSOR_DISTANCE (heading (angle a + off)))"

text \<open>The grid an agent senses: food scent while searching, home scent while carrying.\<close>

definition sensed_grid :: "ant \<Rightarrow> world \<Rightarrow> grid" where
  "sensed_grid a w =
     (case state a of SEARCHING \<Rightarrow> food_pheromones w | CARRYING_FOOD \<Rightarrow> home_pheromones w)"

definition smell_ahead :: "ant \<Rightarrow> world \<Rightarrow> real" where
  "smell_ahead a w = get_pheromone_value (sensor_pos a 0) (sensed_grid a w)"

definition smell_left :: "ant \<Rightarrow> world \<Rightarrow> real" where
  "smell_left a w = get_pheromone_value (sensor_pos a (- ANT_SENSOR_ANGLE)) (sensed_grid a w)"

definition smell_right :: "ant \<Rightarrow> world \<Rightarrow> real" where
  "smell_right a w = get_pheromone_value (sensor_pos a ANT_SENSOR_ANGLE) (sensed_grid a w)"

text \<open>\<open>if smell_ahead > 10: ... on_trail = True\<close>, in both task states.\<close>

definition on_trail :: "ant \<Rightarrow> world \<Rightarrow> bool" where
  "on_trail a w \<longleftrightarrow> smell_ahead a w > 10"

text \<open>\<open>((d + pi) % (2 * pi)) - pi\<close>.\<close>

definition wrap_angle :: "real \<Rightarrow> real" where
  "wrap_angle d = py_mod (d + pi) (2 * pi) - pi"

definition angle_to_colony :: "vec \<Rightarrow> ant \<Rightarrow> real" where
  "angle_to_colony colony a =
     (let d = vsub colony (pos a) in atan2 (snd d) (fst d))"

text \<open>The confidence of the direction at the offset \<open>off\<close>, with the scent \<open>s\<close> sensed there.\<close>

definition confidence :: "vec \<Rightarrow> ant \<Rightarrow> real \<Rightarrow> real \<Rightarrow> real" where
  "confidence colony a off s =
     s + (pi - \<bar>wrap_angle (angle a + off - angle_to_colony colony a)\<bar>)
           * NEST_GRAVITY_STRENGTH * 100"

text \<open>The new heading chosen by the decision step; the position is that before the move.\<close>

definition steer :: "vec \<Rightarrow> real \<Rightarrow> ant \<Rightarrow> world \<Rightarrow> real" where
  "steer colony rw a w =
     (case state a of
        SEARCHING \<Rightarrow>
          (let sa = smell_ahead a w; sl = smell_left a w; sr = smell_right a w
           in if sa > sl \<and> sa > sr then angle a + rw * WANDER_STRENGTH
              else if sl > sr then angle a - ANT_ROTATION_SPEED
              else if sr > sl then angle a + ANT_ROTATION_SPEED
              else angle a + rw * WANDER_STRENGTH)
      | CARRYING_FOOD \<Rightarrow>
          (let ca = confidence colony a 0 (smell_ahead a w);
               cl = confidence colony a (- ANT_SENSOR_ANGLE) (smell_left a w);
               cr = confidence colony a ANT_SENSOR_ANGLE (smell_right a w)
           in if ca > cl \<and> ca > cr then angle a + rw * WANDER_STRENGTH
              else if cl > cr then angle a - ANT_ROTATION_SPEED
              else if cr > cl then angle a + ANT_ROTATION_SPEED
              else angle a
                   + wrap_angle (angle_to_colony colony a - angle a) * ANT_ROTATION_SPEED))"

text \<open>
  Sensing and decision: the patience is decremented when the agent is on a trail, and the
  heading is replaced by the chosen one.
\<close>

definition decide :: "vec \<Rightarrow> real \<Rightarrow> ant \<Rightarrow> world \<Rightarrow> ant" where
  "decide colony rw a w =
     a\<lparr>angle := steer colony rw a w,
       patience := (if on_trail a w then patience a - 1 else patience a)\<rparr>"

text \<open>
  The patience bookkeeping after the decision: recovery when the agent was not on a trail,
  then the test that starts a panic.
\<close>

definition recover :: "bool \<Rightarrow> ant \<Rightarrow> ant" where
  "recover trail a =
     (if \<not> trail then a\<lparr>patience := min MAX_PATIENCE (patience a + 2)\<rparr> else a)"

definition start_panic :: "ant \<Rightarrow> ant" where
  "start_panic a =
     (if patience a \<le> 0
      then a\<lparr>patience := MAX_PATIENCE, panic_timer := PANIC_DURATION\<rparr>
      else a)"

text \<open>
  The \<open>for food in foods\<close> loop of \<open>interact_with_objects\<close>: the first source within the
  pickup radius that still has food loses one unit and the scan stops; \<open>None\<close> when the
  loop ends without a match.
\<close>

fun pickup :: "vec \<Rightarrow> food list \<Rightarrow> food list option" where
  "pickup p [] = None"
| "pickup p (f # fs) =
     (if vnorm (vsub p (food_pos f)) < 10 \<and> amount f > 0
      then Some (f\<lparr>amount := amount f - 1\<rparr> # fs)
      else map_option ((#) f) (pickup p fs))"

definition interact_with_objects :: "vec \<Rightarrow> ant \<Rightarrow> world \<Rightarrow> ant \<times> world" where
  "interact_with_objects colony a w =
     (case state a of
        SEARCHING \<Rightarrow>
          (case pickup (pos a) (foods w) of
             Some fs \<Rightarrow>
               (a\<lparr>state := CARRYING_FOOD, angle := angle a + pi, patience := MAX_PATIENCE\<rparr>,
                w\<lparr>foods := fs\<rparr>)
           | None \<Rightarrow>
               (a, w\<lparr>home_pheromones :=
                       deposit (pos a) (PHEROMONE_DEPOSIT_AMOUNT * (1 / 2)) (home_pheromones w)\<rparr>))
      | CARRYING_FOOD \<Rightarrow>
          (if vnorm (vsub (pos a) colony) < 20
           then (a\<lparr>state := SEARCHING, angle := angle a + pi, patience := MAX_PATIENCE\<rparr>, w)
           else (a, w\<lparr>food_pheromones :=
                        deposit (pos a) PHEROMONE_DEPOSIT_AMOUNT (food_pheromones w)\<rparr>)))"

text \<open>The agent of the normal branch when it reaches the interaction.\<close>

definition before_interaction :: "vec \<Rightarrow> real \<Rightarrow> real \<Rightarrow> ant \<Rightarrow> world \<Rightarrow> ant" where
  "before_interaction colony rw rj a w =
     handle_boundaries rj
       (move (start_panic (recover (on_trail a w) (decide colony rw a w))))"

text \<open>\<open>Ant.update\<close>.\<close>

definition ant_update :: "vec \<Rightarrow> real \<Rightarrow> real \<Rightarrow> ant \<Rightarrow> world \<Rightarrow> ant \<times> world" where
  "ant_update colony rw rj a w =
     (if panic_timer a > 0 then (panic_update rw rj a, w)
      else interact_with_objects colony (before_interaction colony rw rj a w) w)"

subsection \<open>The Gaussian filter\<close>

text \<open>
  Modelled from the spec: \<open>diffuse(sigma)\<close> "applies an isotropic blur (Gaussian convolution
  with spread sigma) to both grids", with a fixed edge handling. The code calls
  \<open>scipy.ndimage.gaussian_filter(grid, sigma=DIFFUSION_RATE)\<close>, which is not part of the
  repository; the model follows its defaults: the kernel is truncated at four standard
  deviations (radius \<open>int(4 * 0.5 + 0.5) = 2\<close>), its weights \<open>exp(- k\<^sup>2 / (2 sigma\<^sup>2))\<close> are
  divided by their sum, the filter runs along axis 0 and then along axis 1, and an index
  beyond an edge is reflected about that edge (mode \<open>reflect\<close>).
\<close>

definition DIFFUSION_RATE :: real where "DIFFUSION_RATE = 1 / 2"

definition gauss_offsets :: "int list" where
  "gauss_offsets = [- 2, - 1, 0, 1, 2]"

definition gauss_phi :: "int \<Rightarrow> real" where
  "gauss_phi k = exp (- (1 / 2) / (DIFFUSION_RATE * DIFFUSION_RATE) * (real_of_int k)\<^sup>2)"

definition gauss_weight :: "int \<Rightarrow> real" where
  "gauss_weight k = gauss_phi k / sum_list (map gauss_phi gauss_offsets)"

definition reflect_idx :: "int \<Rightarrow> int \<Rightarrow> int" where
  "reflect_idx n j = (if j < 0 then - j - 1 else if n \<le> j then 2 * n - 1 - j else j)"

definition filter_axis0 :: "grid \<Rightarrow> grid" where
  "filter_axis0 g =
     (\<lambda>y x. if in_grid x y
            then sum_list (map (\<lambda>k. gauss_weight k * g (reflect_idx SCREEN_HEIGHT (y + k)) x)
                               gauss_offsets)
            else g y x)"

definition filter_axis1 :: "grid \<Rightarrow> grid" where
  "filter_axis1 g =
     (\<lambda>y x. if in_grid x y
            then sum_list (map (\<lambda>k. gauss_weight k * g y (reflect_idx SCREEN_WIDTH (x + k)))
                               gauss_offsets)
            else g y x)"

definition gaussian_filter :: "grid \<Rightarrow> grid" where
  "gaussian_filter g = filter_axis1 (filter_axis0 g)"

subsection \<open>The simulation\<close>

record simulation =
  env :: world
  colony_pos :: vec
  ants :: "ant list"
  frame_count :: int

definition zero_grid :: grid where
  "zero_grid = (\<lambda>y x. 0)"

definition new_food :: "real \<Rightarrow> real \<Rightarrow> int \<Rightarrow> food" where
  "new_food x y n = \<lparr>food_pos = (x, y), amount = n\<rparr>"

text \<open>
  \<open>Simulation.__init__\<close>; \<open>a0 i\<close> is the initial heading that \<open>random.uniform(0, 2 * pi)\<close>
  returns for the agent of index \<open>i\<close>.
\<close>

definition init_simulation :: "(nat \<Rightarrow> real) \<Rightarrow> simulation" where
  "init_simulation a0 =
     (let c = (real_of_int SCREEN_WIDTH / 2, real_of_int SCREEN_HEIGHT / 2)
      in \<lparr>env = \<lparr>home_pheromones = zero_grid, food_pheromones = zero_grid,
                 foods = [new_food 100 100 1000,
                          new_food (real_of_int SCREEN_WIDTH - 100)
                                   (real_of_int SCREEN_HEIGHT - 100) 1000,
                          new_food (real_of_int SCREEN_WIDTH - 200) 150 1000,
                          new_food 120 (real_of_int SCREEN_HEIGHT - 80) 1000]\<rparr>,
          colony_pos = c,
          ants = map (\<lambda>i. new_ant (fst c) (snd c) (a0 i)) [0..<ANT_COUNT],
          frame_count = 0\<rparr>)"

text \<open>The handler of \<open>MOUSEBUTTONDOWN\<close> in \<open>Simulation.start\<close>.\<close>

definition add_food :: "int \<Rightarrow> int \<Rightarrow> simulation \<Rightarrow> simulation" where
  "add_food x y s =
     s\<lparr>env := (env s)\<lparr>foods := foods (env s) @ [new_food (real_of_int x) (real_of_int y) 1000]\<rparr>\<rparr>"

text \<open>
  The loop \<open>for ant in self.ants\<close>: the agents are updated in list order, each on the grids
  and food sources as the earlier ones left them. \<open>d i\<close> holds the two random values of the
  agent of index \<open>i\<close>.
\<close>

fun update_ants ::
  "vec \<Rightarrow> (nat \<Rightarrow> real \<times> real) \<Rightarrow> nat \<Rightarrow> ant list \<Rightarrow> world \<Rightarrow> ant list \<times> world" where
  "update_ants c d i [] w = ([], w)"
| "update_ants c d i (a # as) w =
     (let r = ant_update c (fst (d i)) (snd (d i)) a w;
          rs = update_ants c d (Suc i) as (snd r)
      in (fst r # fst rs, snd rs))"

definition evaporate_all :: "world \<Rightarrow> world" where
  "evaporate_all w =
     w\<lparr>home_pheromones := evaporate (home_pheromones w),
       food_pheromones := evaporate (food_pheromones w)\<rparr>"

definition diffuse_all :: "world \<Rightarrow> world" where
  "diffuse_all w =
     w\<lparr>home_pheromones := gaussian_filter (home_pheromones w),
       food_pheromones := gaussian_filter (food_pheromones w)\<rparr>"

text \<open>\<open>Simulation.update\<close>.\<close>

definition sim_update :: "(nat \<Rightarrow> real \<times> real) \<Rightarrow> simulation \<Rightarrow> simulation" where
  "sim_update d s =
     (let r = update_ants (colony_pos s) d 0 (ants s) (env s);
          w1 = evaporate_all (snd r);
          w2 = (if frame_count s mod DIFFUSION_INTERVAL = 0 then diffuse_all w1 else w1)
      in s\<lparr>env := w2, ants := fst r, frame_count := frame_count s + 1\<rparr>)"

text \<open>The values that \<open>random.uniform(-1, 1)\<close> and \<open>random.uniform(-0.5, 0.5)\<close> can return.\<close>

definition valid_draw :: "real \<times> real \<Rightarrow> bool" where
  "valid_draw r \<longleftrightarrow> - 1 \<le> fst r \<and> fst r \<le> 1 \<and> - (1 / 2) \<le> snd r \<and> snd r \<le> 1 / 2"

text \<open>
  The states of \<open>Simulation.start\<close>: the initial one, and those after a click or a tick.
\<close>

inductive reachable :: "simulation \<Rightarrow> bool" where
  init: "(\<And>i. 0 \<le> a0 i \<and> a0 i \<le> 2 * pi) \<Longrightarrow> reachable (init_simulation a0)"
| click: "reachable s \<Longrightarrow> reachable (add_food x y s)"
| tick: "reachable s \<Longrightarrow> (\<And>i. valid_draw (d i)) \<Longrightarrow> reachable (sim_update d s)"

text \<open>
  One agent followed over several ticks: at tick \<open>n\<close> it is updated with the random values
  \<open>fst (E n)\<close> on the world \<open>snd (E n)\<close>, which is whatever the other agents, the evaporation
  and the diffusion have made of the grids and food sources by then.
\<close>

fun run_ant :: "vec \<Rightarrow> (nat \<Rightarrow> (real \<times> real) \<times> world) \<Rightarrow> nat \<Rightarrow> ant \<Rightarrow> ant" where
  "run_ant c E 0 a = a"
| "run_ant c E (Suc n) a =
     fst (ant_update c (fst (fst (E n))) (snd (fst (E n))) (run_ant c E n a) (snd (E n)))"

subsection \<open>Predicates and scenarios of the properties\<close>

text \<open>
  The predicates in which the properties are stated, and the worlds and agents at which
  they are instantiated.
\<close>

definition empty_world :: world where
  "empty_world = \<lparr>home_pheromones = zero_grid, food_pheromones = zero_grid, foods = []\<rparr>"

text \<open>A world with food scent in the single cell of row 100 and column 110.\<close>

definition trail_world :: world where
  "trail_world =
     \<lparr>home_pheromones = zero_grid,
      food_pheromones = zero_grid(100 := (zero_grid 100)(110 := 50)),
      foods = []\<rparr>"

text \<open>An agent that carries food and stands on the colony.\<close>

definition carrier :: ant where
  "carrier = \<lparr>pos = (640, 360), angle = 0, speed = ANT_SPEED, state = CARRYING_FOOD,
              patience = 250, panic_timer = 0\<rparr>"

text \<open>A searching agent that stands on three food sources, the first of them empty.\<close>

definition forager :: ant where
  "forager = new_ant 100 100 0"

definition stocked_world :: world where
  "stocked_world =
     \<lparr>home_pheromones = zero_grid, food_pheromones = zero_grid,
      foods = [new_food 100 100 0, new_food 100 100 5, new_food 100 100 7]\<rparr>"

text \<open>A searching agent with one unit of patience left, facing the scented cell.\<close>

definition weary :: ant where
  "weary = \<lparr>pos = (100, 100), angle = 0, speed = ANT_SPEED, state = SEARCHING,
            patience = 1, panic_timer = 0\<rparr>"

text \<open>Every cell of a grid lies in \<open>[0, MAX_PHEROMONE]\<close>.\<close>

definition grid_bounded :: "grid \<Rightarrow> bool" where
  "grid_bounded g \<longleftrightarrow> (\<forall>y x. in_grid x y \<longrightarrow> 0 \<le> g y x \<and> g y x \<le> MAX_PHEROMONE)"

definition grids_bounded :: "world \<Rightarrow> bool" where
  "grids_bounded w \<longleftrightarrow> grid_bounded (home_pheromones w) \<and> grid_bounded (food_pheromones w)"


text \<open>
  The interaction of an agent that has moved to \<open>b\<close> resets its patience: a searching agent
  finds food to pick up, a carrying agent is within the capture radius of the colony.
\<close>

definition reaches_goal :: "vec \<Rightarrow> ant \<Rightarrow> world \<Rightarrow> bool" where
  "reaches_goal c b w =
     (case state b of
        SEARCHING \<Rightarrow> pickup (pos b) (foods w) \<noteq> None
      | CARRYING_FOOD \<Rightarrow> vnorm (vsub (pos b) c) < 20)"

text \<open>The update that tick \<open>n\<close> of a run performs, and what the agent meets in that tick.\<close>

definition tick_of :: "vec \<Rightarrow> (nat \<Rightarrow> (real \<times> real) \<times> world) \<Rightarrow> nat \<Rightarrow> ant \<Rightarrow> ant \<times> world" where
  "tick_of c E n a =
     ant_update c (fst (fst (E n))) (snd (fst (E n))) (run_ant c E n a) (snd (E n))"

definition on_trail_at :: "vec \<Rightarrow> (nat \<Rightarrow> (real \<times> real) \<times> world) \<Rightarrow> nat \<Rightarrow> ant \<Rightarrow> bool" where
  "on_trail_at c E n a \<longleftrightarrow> on_trail (run_ant c E n a) (snd (E n))"

definition goal_at :: "vec \<Rightarrow> (nat \<Rightarrow> (real \<times> real) \<times> world) \<Rightarrow> nat \<Rightarrow> ant \<Rightarrow> bool" where
  "goal_at c E n a \<longleftrightarrow>
     reaches_goal c
       (before_interaction c (fst (fst (E n))) (snd (fst (E n))) (run_ant c E n a) (snd (E n)))
       (snd (E n))"

text \<open>
  A world with food scent in every cell and no food, ticks in it whose wander draw is 0 up
  to tick 300 and 1 from then on, and an agent that walks east through it.
\<close>

definition full_grid :: grid where
  "full_grid = (\<lambda>y x. 500)"

definition scented_world :: world where
  "scented_world = \<lparr>home_pheromones = zero_grid, food_pheromones = full_grid, foods = []\<rparr>"

definition scented_env :: "nat \<Rightarrow> (real \<times> real) \<times> world" where
  "scented_env n = ((if n < 300 then 0 else 1, 0), scented_world)"

definition walker :: ant where
  "walker = new_ant 100 360 0"

text \<open>The agent stands in the closed play rectangle.\<close>

definition in_play :: "ant \<Rightarrow> bool" where
  "in_play a \<longleftrightarrow>
     20 \<le> fst (pos a) \<and> fst (pos a) \<le> real_of_int SCREEN_WIDTH - 20 \<and>
     20 \<le> snd (pos a) \<and> snd (pos a) \<le> real_of_int SCREEN_HEIGHT - 20"


section \<open>Properties\<close>

subsection \<open>Truncation of coordinates\<close>

lemma py_int_nonneg: "0 \<le> r \<Longrightarrow> py_int r = \<lfloor>r\<rfloor>"
  by (simp add: py_int_def)

lemma py_int_le: "r \<le> - 1 \<Longrightarrow> py_int r < 0"
  unfolding py_int_def by (simp add: ceiling_less_iff)

lemma py_int_ge: "real_of_int n \<le> r \<Longrightarrow> 0 \<le> n \<Longrightarrow> n \<le> py_int r"
  unfolding py_int_def by (auto simp: le_floor_iff)

lemma py_int_inside: "0 \<le> r \<Longrightarrow> r < real_of_int n \<Longrightarrow> 0 \<le> py_int r \<and> py_int r < n"
  unfolding py_int_def by (auto simp: floor_less_iff)

lemma py_int_index:
  assumes "- 1 < r" and "r < real_of_int n" and "0 < n"
  shows "py_int r = (if r < 0 then 0 else \<lfloor>r\<rfloor>)" and "0 \<le> py_int r" and "py_int r < n"
proof -
  show eq: "py_int r = (if r < 0 then 0 else \<lfloor>r\<rfloor>)"
    using assms(1) by (simp add: py_int_def ceiling_eq_iff)
  show "0 \<le> py_int r" unfolding eq by simp
  from assms(2) have "\<lfloor>r\<rfloor> < n" by (simp add: floor_less_iff)
  with assms(3) show "py_int r < n" unfolding eq by simp
qed

lemma outside_not_in_grid:
  assumes "fst p \<le> - 1 \<or> real_of_int SCREEN_WIDTH \<le> fst p \<or>
           snd p \<le> - 1 \<or> real_of_int SCREEN_HEIGHT \<le> snd p"
  shows "\<not> in_grid (py_int (fst p)) (py_int (snd p))"
proof -
  have w: "0 \<le> SCREEN_WIDTH" and h: "0 \<le> SCREEN_HEIGHT"
    by (simp_all add: SCREEN_WIDTH_def SCREEN_HEIGHT_def)
  from assms consider "fst p \<le> - 1" | "real_of_int SCREEN_WIDTH \<le> fst p"
    | "snd p \<le> - 1" | "real_of_int SCREEN_HEIGHT \<le> snd p" by blast
  then show ?thesis
  proof cases
    case 1 then show ?thesis using py_int_le [of "fst p"] by (simp add: in_grid_def)
  next
    case 2 then show ?thesis using py_int_ge [OF _ w, of "fst p"] by (simp add: in_grid_def)
  next
    case 3 then show ?thesis using py_int_le [of "snd p"] by (simp add: in_grid_def)
  next
    case 4 then show ?thesis using py_int_ge [OF _ h, of "snd p"] by (simp add: in_grid_def)
  qed
qed

subsection \<open>Sampling and depositing at the edge of the grid\<close>

text \<open>
  C1, as the code has it. The claim reads: sampling returns the cell at the floored
  coordinates and 0 for every point outside the grid, and a deposit outside the grid does
  nothing. The code truncates with \<open>int\<close>, toward zero, so a point with a coordinate in
  \<open>(-1, 0)\<close> is outside the grid and yet addresses row or column 0: a deposit there is
  stored and the sample reads it back.
\<close>

theorem sample_after_deposit_in_strip:
  "(- (1 / 2) :: real) < 0 \<and>
   get_pheromone_value (- (1 / 2), 5) (deposit (- (1 / 2), 5) 250 zero_grid) = 250"
  by (simp add: get_pheromone_value_def deposit_def py_int_def in_grid_def zero_grid_def
      SCREEN_WIDTH_def SCREEN_HEIGHT_def MAX_PHEROMONE_def Let_def)

text \<open>
  C1, amended: for a point inside the grid the sample is the cell at the floored
  coordinates; for a point at least one whole cell outside (a coordinate \<open>\<le> -1\<close>, or
  \<open>\<ge>\<close> the width or height) the sample is 0, the deposit leaves the grid as it is, and the
  sample after the deposit is 0. A coordinate in the strip \<open>(-1, 0)\<close> is truncated to row
  or column 0: the sample reads that cell and the deposit writes it.
\<close>

theorem sample_and_deposit_bounds:
  "(0 \<le> fst p \<and> fst p < real_of_int SCREEN_WIDTH \<and>
    0 \<le> snd p \<and> snd p < real_of_int SCREEN_HEIGHT \<longrightarrow>
      get_pheromone_value p g = g \<lfloor>snd p\<rfloor> \<lfloor>fst p\<rfloor>) \<and>
   (fst p \<le> - 1 \<or> real_of_int SCREEN_WIDTH \<le> fst p \<or>
    snd p \<le> - 1 \<or> real_of_int SCREEN_HEIGHT \<le> snd p \<longrightarrow>
      get_pheromone_value p g = 0 \<and> deposit p amt g = g \<and>
      get_pheromone_value p (deposit p amt g) = 0) \<and>
   (- 1 < fst p \<and> fst p < real_of_int SCREEN_WIDTH \<and>
    - 1 < snd p \<and> snd p < real_of_int SCREEN_HEIGHT \<longrightarrow>
      (let x = (if fst p < 0 then 0 else \<lfloor>fst p\<rfloor>);
           y = (if snd p < 0 then 0 else \<lfloor>snd p\<rfloor>)
       in get_pheromone_value p g = g y x \<and>
          deposit p amt g = g(y := (g y)(x := min MAX_PHEROMONE (g y x + amt)))))"
proof (intro conjI impI)
  assume "0 \<le> fst p \<and> fst p < real_of_int SCREEN_WIDTH \<and>
          0 \<le> snd p \<and> snd p < real_of_int SCREEN_HEIGHT"
  then show "get_pheromone_value p g = g \<lfloor>snd p\<rfloor> \<lfloor>fst p\<rfloor>"
    using py_int_inside [of "fst p" SCREEN_WIDTH] py_int_inside [of "snd p" SCREEN_HEIGHT]
    by (simp add: get_pheromone_value_def in_grid_def Let_def py_int_nonneg)
next
  assume out: "fst p \<le> - 1 \<or> real_of_int SCREEN_WIDTH \<le> fst p \<or>
               snd p \<le> - 1 \<or> real_of_int SCREEN_HEIGHT \<le> snd p"
  note ng = outside_not_in_grid [OF out]
  show "get_pheromone_value p g = 0"
    using ng by (simp add: get_pheromone_value_def Let_def)
  show "deposit p amt g = g"
    using ng by (simp add: deposit_def Let_def)
  show "get_pheromone_value p (deposit p amt g) = 0"
    using ng by (simp add: get_pheromone_value_def Let_def)
next
  assume "- 1 < fst p \<and> fst p < real_of_int SCREEN_WIDTH \<and>
          - 1 < snd p \<and> snd p < real_of_int SCREEN_HEIGHT"
  then have x: "- 1 < fst p" "fst p < real_of_int SCREEN_WIDTH"
    and y: "- 1 < snd p" "snd p < real_of_int SCREEN_HEIGHT"
    by simp_all
  have "0 < SCREEN_WIDTH" "0 < SCREEN_HEIGHT" by (simp_all add: SCREEN_WIDTH_def SCREEN_HEIGHT_def)
  note ix = py_int_index [OF x this(1)] and iy = py_int_index [OF y this(2)]
  from ix(2,3) iy(2,3) have "in_grid (py_int (fst p)) (py_int (snd p))"
    by (simp add: in_grid_def)
  then show "let x = (if fst p < 0 then 0 else \<lfloor>fst p\<rfloor>);
           y = (if snd p < 0 then 0 else \<lfloor>snd p\<rfloor>)
       in get_pheromone_value p g = g y x \<and>
          deposit p amt g = g(y := (g y)(x := min MAX_PHEROMONE (g y x + amt)))"
    unfolding get_pheromone_value_def deposit_def Let_def ix(1) [symmetric] iy(1) [symmetric]
    by simp
qed

theorem sample_and_deposit_bounds_witness:
  "get_pheromone_value (3 / 2, 5) ((zero_grid)(5 := (zero_grid 5)(1 := 7))) = 7 \<and>
   get_pheromone_value (- 3, 5) (deposit (- 3, 5) 250 zero_grid) = 0 \<and>
   deposit (- 3, 5) 250 zero_grid = zero_grid \<and>
   get_pheromone_value (- (1 / 2), 5) ((zero_grid)(5 := (zero_grid 5)(0 := 7))) = 7"
  using sample_and_deposit_bounds [of "(3 / 2, 5)" "(zero_grid)(5 := (zero_grid 5)(1 := 7))"]
    sample_and_deposit_bounds [of "(- 3, 5)" zero_grid 250]
    sample_and_deposit_bounds [of "(- (1 / 2), 5)" "(zero_grid)(5 := (zero_grid 5)(0 := 7))"]
  by (simp add: SCREEN_WIDTH_def SCREEN_HEIGHT_def Let_def)

subsection \<open>Evaporation\<close>

lemma evaporate_funpow: "(evaporate ^^ t) g y x = g y x * EVAPORATION_RATE ^ t"
  by (induction t arbitrary: g) (simp_all add: evaporate_def funpow_swap1)

lemma evaporate_all_funpow:
  "(evaporate_all ^^ t) w =
     w\<lparr>home_pheromones := (evaporate ^^ t) (home_pheromones w),
       food_pheromones := (evaporate ^^ t) (food_pheromones w)\<rparr>"
  by (induction t) (simp_all add: evaporate_all_def)

text \<open>
  C9: the evaporation step of \<open>Simulation.update\<close>, applied \<open>t\<close> times with nothing in
  between, multiplies every cell of both grids by \<open>EVAPORATION_RATE ^ t\<close>.
\<close>

theorem evaporation_power:
  "home_pheromones ((evaporate_all ^^ t) w) y x
     = home_pheromones w y x * EVAPORATION_RATE ^ t \<and>
   food_pheromones ((evaporate_all ^^ t) w) y x
     = food_pheromones w y x * EVAPORATION_RATE ^ t"
  by (simp add: evaporate_all_funpow evaporate_funpow)

subsection \<open>Fields that the stages of an update keep\<close>

lemmas screen_defs = SCREEN_WIDTH_def SCREEN_HEIGHT_def

lemma interact_keeps_pos [simp]: "pos (fst (interact_with_objects c a w)) = pos a"
  by (simp add: interact_with_objects_def split: task.splits option.splits)

lemma interact_keeps_panic_timer [simp]:
  "panic_timer (fst (interact_with_objects c a w)) = panic_timer a"
  by (simp add: interact_with_objects_def split: task.splits option.splits)

lemma handle_boundaries_keeps [simp]:
  "state (handle_boundaries rj a) = state a"
  "patience (handle_boundaries rj a) = patience a"
  "panic_timer (handle_boundaries rj a) = panic_timer a"
  "speed (handle_boundaries rj a) = speed a"
  by (simp_all add: handle_boundaries_def Let_def)

lemma move_keeps [simp]:
  "state (move a) = state a" "patience (move a) = patience a"
  "panic_timer (move a) = panic_timer a" "angle (move a) = angle a" "speed (move a) = speed a"
  by (simp_all add: move_def)

lemma start_panic_keeps [simp]:
  "state (start_panic a) = state a" "angle (start_panic a) = angle a"
  "pos (start_panic a) = pos a" "speed (start_panic a) = speed a"
  by (simp_all add: start_panic_def)

lemma recover_keeps [simp]:
  "state (recover t a) = state a" "angle (recover t a) = angle a"
  "pos (recover t a) = pos a" "panic_timer (recover t a) = panic_timer a"
  "speed (recover t a) = speed a"
  by (simp_all add: recover_def)

lemma decide_keeps [simp]:
  "state (decide c rw a w) = state a" "pos (decide c rw a w) = pos a"
  "panic_timer (decide c rw a w) = panic_timer a" "speed (decide c rw a w) = speed a"
  "angle (decide c rw a w) = steer c rw a w"
  by (simp_all add: decide_def)

lemma before_interaction_state [simp]:
  "state (before_interaction c rw rj a w) = state a"
  by (simp add: before_interaction_def)

subsection \<open>The play rectangle\<close>

lemma handle_boundaries_in_play:
  "20 \<le> fst (pos (handle_boundaries rj a)) \<and>
   fst (pos (handle_boundaries rj a)) \<le> real_of_int SCREEN_WIDTH - 20 \<and>
   20 \<le> snd (pos (handle_boundaries rj a)) \<and>
   snd (pos (handle_boundaries rj a)) \<le> real_of_int SCREEN_HEIGHT - 20"
  by (auto simp: handle_boundaries_def Let_def clip_def screen_defs)

text \<open>
  C10: after every update of an agent, in the panic branch and in the normal branch, its
  position lies in the closed rectangle \<open>[20, SCREEN_WIDTH - 20] \<times> [20, SCREEN_HEIGHT - 20]\<close>.
  The test of \<open>handle_boundaries\<close> is strict, so the handler also fires for an agent with
  a coordinate exactly on the margin: the position is clipped and the heading turns by
  \<open>pi\<close> plus the jitter.
\<close>

theorem position_in_play:
  "(20 \<le> fst (pos (fst (ant_update c rw rj a w))) \<and>
    fst (pos (fst (ant_update c rw rj a w))) \<le> real_of_int SCREEN_WIDTH - 20 \<and>
    20 \<le> snd (pos (fst (ant_update c rw rj a w))) \<and>
    snd (pos (fst (ant_update c rw rj a w))) \<le> real_of_int SCREEN_HEIGHT - 20) \<and>
   (fst (pos a) = 20 \<or> fst (pos a) = real_of_int SCREEN_WIDTH - 20 \<or>
    snd (pos a) = 20 \<or> snd (pos a) = real_of_int SCREEN_HEIGHT - 20 \<longrightarrow>
      handle_boundaries rj a =
        a\<lparr>pos := (clip (fst (pos a)) 20 (real_of_int SCREEN_WIDTH - 20),
                 clip (snd (pos a)) 20 (real_of_int SCREEN_HEIGHT - 20)),
          angle := angle a + (pi + rj)\<rparr>)"
proof (intro conjI impI)
  assume "fst (pos a) = 20 \<or> fst (pos a) = real_of_int SCREEN_WIDTH - 20 \<or>
    snd (pos a) = 20 \<or> snd (pos a) = real_of_int SCREEN_HEIGHT - 20"
  then show "handle_boundaries rj a =
        a\<lparr>pos := (clip (fst (pos a)) 20 (real_of_int SCREEN_WIDTH - 20),
                 clip (snd (pos a)) 20 (real_of_int SCREEN_HEIGHT - 20)),
          angle := angle a + (pi + rj)\<rparr>"
    by (auto simp: handle_boundaries_def Let_def)
qed (simp_all add: ant_update_def panic_update_def before_interaction_def Let_def
       handle_boundaries_in_play)

theorem position_in_play_witness:
  "20 \<le> fst (pos (fst (ant_update (640, 360) 0 (1 / 4) (new_ant 20 100 pi)
        \<lparr>home_pheromones = zero_grid, food_pheromones = zero_grid, foods = []\<rparr>))) \<and>
   fst (pos (fst (ant_update (640, 360) 0 (1 / 4) (new_ant 20 100 pi)
        \<lparr>home_pheromones = zero_grid, food_pheromones = zero_grid, foods = []\<rparr>))) \<le> 1260 \<and>
   handle_boundaries (1 / 4) (new_ant 20 100 pi)
     = (new_ant 20 100 pi)\<lparr>pos := (20, 100), angle := pi + (pi + 1 / 4)\<rparr>"
  using position_in_play [of "(640, 360)" 0 "1 / 4" "new_ant 20 100 pi"
      "\<lparr>home_pheromones = zero_grid, food_pheromones = zero_grid, foods = []\<rparr>"]
  by (simp add: new_ant_def screen_defs clip_def)

subsection \<open>The decision of a searching agent\<close>

text \<open>
  C6: for a searching agent in the normal branch, the heading after the decision is the old
  one plus the wander term when the scent ahead is strictly the largest, minus the rotation
  step when the scent on the left is strictly the largest, plus the rotation step when the
  scent on the right is strictly the largest, and plus the wander term when the three
  scents are equal.
\<close>

theorem searching_decision:
  assumes "state a = SEARCHING"
  shows "(smell_ahead a w > smell_left a w \<and> smell_ahead a w > smell_right a w \<longrightarrow>
            angle (decide c rw a w) = angle a + rw * WANDER_STRENGTH) \<and>
         (smell_left a w > smell_ahead a w \<and> smell_left a w > smell_right a w \<longrightarrow>
            angle (decide c rw a w) = angle a - ANT_ROTATION_SPEED) \<and>
         (smell_right a w > smell_ahead a w \<and> smell_right a w > smell_left a w \<longrightarrow>
            angle (decide c rw a w) = angle a + ANT_ROTATION_SPEED) \<and>
         (smell_ahead a w = smell_left a w \<and> smell_left a w = smell_right a w \<longrightarrow>
            angle (decide c rw a w) = angle a + rw * WANDER_STRENGTH)"
  using assms by (simp add: decide_def steer_def Let_def)

lemma floor_sensor: "\<lfloor>5 * sqrt 2\<rfloor> \<noteq> 0"
proof -
  have "1 \<le> sqrt 2" by simp
  then have "(5::real) \<le> 5 * sqrt 2" by simp
  then have "5 \<le> \<lfloor>5 * sqrt 2\<rfloor>" by (simp add: le_floor_iff)
  then show ?thesis by linarith
qed

lemma w_left: "smell_left (new_ant 100 100 (pi / 4)) trail_world = 50"
  by (simp add: smell_left_def sensor_pos_def sensed_grid_def new_ant_def trail_world_def
      ANT_SENSOR_ANGLE_def ANT_SENSOR_DISTANCE_def heading_def vadd_def smul_def
      get_pheromone_value_def py_int_def in_grid_def screen_defs zero_grid_def)

lemma w_right: "smell_right (new_ant 100 100 (pi / 4)) trail_world = 0"
  by (simp add: smell_right_def sensor_pos_def sensed_grid_def new_ant_def trail_world_def
      ANT_SENSOR_ANGLE_def ANT_SENSOR_DISTANCE_def heading_def vadd_def smul_def
      get_pheromone_value_def py_int_def in_grid_def screen_defs zero_grid_def)

lemma w_ahead: "smell_ahead (new_ant 100 100 (pi / 4)) trail_world = 0"
  using floor_sensor
  by (simp add: Let_def smell_ahead_def sensor_pos_def sensed_grid_def new_ant_def trail_world_def
      ANT_SENSOR_ANGLE_def ANT_SENSOR_DISTANCE_def heading_def vadd_def smul_def
      get_pheromone_value_def py_int_def in_grid_def screen_defs zero_grid_def
      cos_45 sin_45)

theorem searching_decision_witness:
  "state (new_ant 100 100 (pi / 4)) = SEARCHING \<and>
   smell_left (new_ant 100 100 (pi / 4)) trail_world = 50 \<and>
   smell_ahead (new_ant 100 100 (pi / 4)) trail_world = 0 \<and>
   smell_right (new_ant 100 100 (pi / 4)) trail_world = 0 \<and>
   angle (decide (640, 360) (1 / 2) (new_ant 100 100 (pi / 4)) trail_world)
     = pi / 4 - ANT_ROTATION_SPEED"
  using searching_decision [of "new_ant 100 100 (pi / 4)" trail_world "(640, 360)" "1 / 2"]
  by (simp add: w_left w_right w_ahead) (simp add: new_ant_def)

subsection \<open>A step away from the walls\<close>

lemma before_interaction_pos:
  "pos (before_interaction c rw rj a w)
     = pos (handle_boundaries rj (move (a\<lparr>angle := steer c rw a w\<rparr>)))"
  by (simp add: before_interaction_def handle_boundaries_def move_def Let_def)
lemma interior_step:
  assumes "speed a = 3 / 2"
    and "22 \<le> fst (pos a)" "fst (pos a) \<le> real_of_int SCREEN_WIDTH - 22"
    and "22 \<le> snd (pos a)" "snd (pos a) \<le> real_of_int SCREEN_HEIGHT - 22"
  shows "pos (before_interaction c rw rj a w)
           = vadd (pos a) (smul (speed a) (heading (steer c rw a w)))"
proof -
  let ?t = "steer c rw a w"
  have c: "- 1 \<le> cos ?t" "cos ?t \<le> 1" and s: "- 1 \<le> sin ?t" "sin ?t \<le> 1"
    by simp_all
  have "20 < fst (pos a) + speed a * cos ?t"
    "fst (pos a) + speed a * cos ?t < real_of_int SCREEN_WIDTH - 20"
    "20 < snd (pos a) + speed a * sin ?t"
    "snd (pos a) + speed a * sin ?t < real_of_int SCREEN_HEIGHT - 20"
    unfolding assms(1) using assms(2-) c s by linarith+
  then show ?thesis
    by (simp add: before_interaction_pos handle_boundaries_def move_def Let_def vadd_def
        smul_def heading_def)
qed

lemma vnorm_heading_step: "vnorm (vsub (vadd p (smul s (heading t))) p) = \<bar>s\<bar>"
proof -
  have "(s * cos t)\<^sup>2 + (s * sin t)\<^sup>2 = s\<^sup>2 * ((cos t)\<^sup>2 + (sin t)\<^sup>2)"
    by (simp only: power_mult_distrib distrib_left)
  also have "\<dots> = s\<^sup>2" by simp
  finally show ?thesis
    by (simp add: vnorm_def vsub_def vadd_def smul_def heading_def)
qed

subsection \<open>Arrival at the colony\<close>

text \<open>
  C7: a carrying agent of the normal branch that is within the capture radius of the colony
  after its move becomes a searching one, its heading turns by \<open>pi\<close>, its patience is
  reset to \<open>MAX_PATIENCE\<close>, and the world is returned as it was: nothing is deposited
  into either grid and no food source changes.
\<close>

theorem arrival_at_colony:
  assumes "state a = CARRYING_FOOD" and "panic_timer a \<le> 0"
    and "vnorm (vsub (pos (before_interaction c rw rj a w)) c) < 20"
  shows "ant_update c rw rj a w =
           ((before_interaction c rw rj a w)
              \<lparr>state := SEARCHING,
               angle := angle (before_interaction c rw rj a w) + pi,
               patience := MAX_PATIENCE\<rparr>, w)"
  using assms by (simp add: ant_update_def interact_with_objects_def)
theorem arrival_at_colony_witness:
  "state (fst (ant_update (640, 360) 0 0 carrier empty_world)) = SEARCHING \<and>
   patience (fst (ant_update (640, 360) 0 0 carrier empty_world)) = MAX_PATIENCE \<and>
   snd (ant_update (640, 360) 0 0 carrier empty_world) = empty_world"
proof -
  have "pos (before_interaction (640, 360) 0 0 carrier empty_world)
          = vadd (640, 360) (smul (3 / 2) (heading (steer (640, 360) 0 carrier empty_world)))"
    using interior_step [of carrier "(640, 360)" 0 0 empty_world]
    by (simp add: carrier_def ANT_SPEED_def screen_defs)
  then have near: "vnorm (vsub (pos (before_interaction (640, 360) 0 0 carrier empty_world))
                     (640, 360)) < 20"
    by (simp add: vnorm_heading_step)
  have "state carrier = CARRYING_FOOD" "panic_timer carrier \<le> 0"
    by (simp_all add: carrier_def)
  from arrival_at_colony [OF this near] show ?thesis by simp
qed

subsection \<open>Invariants of the loop over the agents\<close>

lemma update_ants_world_inv:
  assumes step: "\<And>a w rw rj. Q w \<Longrightarrow> Q (snd (ant_update c rw rj a w))"
    and "Q w"
  shows "Q (snd (update_ants c d i as w))"
  using assms(2)
proof (induction as arbitrary: i w)
  case Nil
  then show ?case by simp
next
  case (Cons a as)
  from Cons.prems have "Q (snd (ant_update c (fst (d i)) (snd (d i)) a w))"
    by (rule step)
  from Cons.IH [OF this] show ?case by (simp add: Let_def)
qed

lemma update_ants_ant_inv:
  assumes step: "\<And>a w rw rj. P a \<Longrightarrow> P (fst (ant_update c rw rj a w))"
    and "\<forall>a\<in>set as. P a"
  shows "\<forall>a\<in>set (fst (update_ants c d i as w)). P a"
  using assms(2)
proof (induction as arbitrary: i w)
  case Nil
  then show ?case by simp
next
  case (Cons a as)
  from Cons.prems have "P (fst (ant_update c (fst (d i)) (snd (d i)) a w))"
    by (simp add: step)
  moreover from Cons.prems
  have "\<forall>b\<in>set (fst (update_ants c d (Suc i) as
                  (snd (ant_update c (fst (d i)) (snd (d i)) a w)))). P b"
    by (intro Cons.IH) simp
  ultimately show ?case by (simp add: Let_def)
qed

lemma update_ants_length [simp]: "length (fst (update_ants c d i as w)) = length as"
  by (induction as arbitrary: i w) (simp_all add: Let_def)

subsection \<open>Picking up food\<close>

lemma pickup_first:
  assumes "i < length fs"
    and "vnorm (vsub p (food_pos (fs ! i))) < 10 \<and> amount (fs ! i) > 0"
    and "\<forall>j<i. \<not> (vnorm (vsub p (food_pos (fs ! j))) < 10 \<and> amount (fs ! j) > 0)"
  shows "pickup p fs = Some (fs[i := (fs ! i)\<lparr>amount := amount (fs ! i) - 1\<rparr>])"
  using assms
proof (induction fs arbitrary: i)
  case Nil
  then show ?case by simp
next
  case (Cons f fs)
  show ?case
  proof (cases i)
    case 0
    with Cons.prems show ?thesis by simp
  next
    case (Suc k)
    from Cons.prems(3) Suc have first: "\<not> (vnorm (vsub p (food_pos f)) < 10 \<and> amount f > 0)"
      by (metis nth_Cons_0 zero_less_Suc)
    from Cons.prems(3) Suc
    have rest: "\<forall>j<k. \<not> (vnorm (vsub p (food_pos (fs ! j))) < 10 \<and> amount (fs ! j) > 0)"
      by (metis Suc_less_eq nth_Cons_Suc)
    from Cons.prems Suc have "k < length fs"
      and "vnorm (vsub p (food_pos (fs ! k))) < 10 \<and> amount (fs ! k) > 0"
      by simp_all
    from Cons.IH [OF this rest] first Suc show ?thesis by auto
  qed
qed

lemma pickup_nonneg:
  "pickup p fs = Some fs' \<Longrightarrow> \<forall>f\<in>set fs. 0 \<le> amount f \<Longrightarrow> \<forall>f\<in>set fs'. 0 \<le> amount f"
proof (induction fs arbitrary: fs')
  case Nil
  then show ?case by simp
next
  case (Cons f fs)
  show ?case
  proof (cases "vnorm (vsub p (food_pos f)) < 10 \<and> amount f > 0")
    case True
    with Cons.prems show ?thesis by auto
  next
    case False
    with Cons.prems obtain gs where "pickup p fs = Some gs" and "fs' = f # gs"
      by auto
    with Cons.IH [of gs] Cons.prems(2) show ?thesis by simp
  qed
qed

lemma interact_foods_nonneg:
  assumes "\<forall>f\<in>set (foods w). 0 \<le> amount f"
  shows "\<forall>f\<in>set (foods (snd (interact_with_objects c a w))). 0 \<le> amount f"
proof (cases "state a")
  case SEARCHING
  then show ?thesis
    using assms pickup_nonneg [of "pos a" "foods w"]
    by (cases "pickup (pos a) (foods w)") (simp_all add: interact_with_objects_def)
next
  case CARRYING_FOOD
  then show ?thesis using assms by (simp add: interact_with_objects_def)
qed

lemma ant_update_foods_nonneg:
  assumes "\<forall>f\<in>set (foods w). 0 \<le> amount f"
  shows "\<forall>f\<in>set (foods (snd (ant_update c rw rj a w))). 0 \<le> amount f"
  using assms interact_foods_nonneg [OF assms] by (simp add: ant_update_def)

lemma sim_update_foods:
  "foods (env (sim_update d s)) = foods (snd (update_ants (colony_pos s) d 0 (ants s) (env s)))"
  by (simp add: sim_update_def Let_def evaporate_all_def diffuse_all_def)

lemma reachable_foods_nonneg:
  "reachable s \<Longrightarrow> \<forall>f\<in>set (foods (env s)). 0 \<le> amount f"
proof (induction rule: reachable.induct)
  case (init a0)
  show ?case by (simp add: init_simulation_def Let_def new_food_def)
next
  case (click s x y)
  then show ?case by (simp add: add_food_def new_food_def)
next
  case (tick s d)
  have "\<forall>f\<in>set (foods (snd (update_ants (colony_pos s) d 0 (ants s) (env s)))). 0 \<le> amount f"
    by (rule update_ants_world_inv [where Q = "\<lambda>w. \<forall>f\<in>set (foods w). 0 \<le> amount f"])
       (use tick.IH ant_update_foods_nonneg in blast)+
  then show ?case by (simp add: sim_update_foods)
qed

text \<open>
  C3: let a searching agent of the normal branch be, after its move, within the pickup
  radius of a food source with food left, and let \<open>i\<close> be the first such source in the
  order of the list. Then the update decrements the amount of source \<open>i\<close> by one and
  leaves every other source and both grids as they were (the scan stops at the first
  match and nothing is deposited), the agent carries food, its heading has turned by
  \<open>pi\<close> and its patience is \<open>MAX_PATIENCE\<close>. No update makes an amount negative, and no
  amount is negative in a reachable state.
\<close>

theorem pickup_of_food:
  "(state a = SEARCHING \<and> panic_timer a \<le> 0 \<and> b = before_interaction c rw rj a w \<and>
    i < length (foods w) \<and>
    vnorm (vsub (pos b) (food_pos (foods w ! i))) < 10 \<and> amount (foods w ! i) > 0 \<and>
    (\<forall>j<i. \<not> (vnorm (vsub (pos b) (food_pos (foods w ! j))) < 10 \<and> amount (foods w ! j) > 0))
    \<longrightarrow>
      ant_update c rw rj a w =
        (b\<lparr>state := CARRYING_FOOD, angle := angle b + pi, patience := MAX_PATIENCE\<rparr>,
         w\<lparr>foods := (foods w)[i := (foods w ! i)\<lparr>amount := amount (foods w ! i) - 1\<rparr>]\<rparr>)) \<and>
   ((\<forall>f\<in>set (foods w). 0 \<le> amount f) \<longrightarrow>
      (\<forall>f\<in>set (foods (snd (ant_update c rw rj a w))). 0 \<le> amount f)) \<and>
   (reachable s \<longrightarrow> (\<forall>f\<in>set (foods (env s)). 0 \<le> amount f))"
proof (intro conjI impI)
  assume h: "state a = SEARCHING \<and> panic_timer a \<le> 0 \<and> b = before_interaction c rw rj a w \<and>
    i < length (foods w) \<and>
    vnorm (vsub (pos b) (food_pos (foods w ! i))) < 10 \<and> amount (foods w ! i) > 0 \<and>
    (\<forall>j<i. \<not> (vnorm (vsub (pos b) (food_pos (foods w ! j))) < 10 \<and> amount (foods w ! j) > 0))"
  then have "pickup (pos b) (foods w)
               = Some ((foods w)[i := (foods w ! i)\<lparr>amount := amount (foods w ! i) - 1\<rparr>])"
    by (intro pickup_first) auto
  with h show "ant_update c rw rj a w =
        (b\<lparr>state := CARRYING_FOOD, angle := angle b + pi, patience := MAX_PATIENCE\<rparr>,
         w\<lparr>foods := (foods w)[i := (foods w ! i)\<lparr>amount := amount (foods w ! i) - 1\<rparr>]\<rparr>)"
    by (simp add: ant_update_def interact_with_objects_def)
next
  assume "\<forall>f\<in>set (foods w). 0 \<le> amount f"
  then show "\<forall>f\<in>set (foods (snd (ant_update c rw rj a w))). 0 \<le> amount f"
    by (rule ant_update_foods_nonneg)
next
  assume "reachable s"
  then show "\<forall>f\<in>set (foods (env s)). 0 \<le> amount f"
    by (rule reachable_foods_nonneg)
qed

lemma forager_step:
  "pos (before_interaction c rw rj forager w)
     = vadd (100, 100) (smul (3 / 2) (heading (steer c rw forager w)))"
  using interior_step [of forager c rw rj w]
  by (simp add: forager_def new_ant_def ANT_SPEED_def screen_defs)

theorem pickup_of_food_witness:
  "state (fst (ant_update (640, 360) 0 0 forager stocked_world)) = CARRYING_FOOD \<and>
   patience (fst (ant_update (640, 360) 0 0 forager stocked_world)) = MAX_PATIENCE \<and>
   snd (ant_update (640, 360) 0 0 forager stocked_world)
     = stocked_world\<lparr>foods := [new_food 100 100 0, new_food 100 100 4, new_food 100 100 7]\<rparr> \<and>
   reachable (add_food 300 200 (init_simulation (\<lambda>i. 0))) \<and>
   0 \<le> amount (last (foods (env (add_food 300 200 (init_simulation (\<lambda>i. 0))))))"
proof -
  let ?b = "before_interaction (640, 360) 0 0 forager stocked_world"
  have near: "vnorm (vsub (pos ?b) (100, 100)) = 3 / 2"
    by (simp add: forager_step vnorm_heading_step)
  have r: "reachable (add_food 300 200 (init_simulation (\<lambda>i. 0)))"
    by (intro reachable.click reachable.init) simp
  have fp: "food_pos (foods stocked_world ! Suc 0) = (100, 100)"
    "amount (foods stocked_world ! Suc 0) = 5" "amount (foods stocked_world ! 0) = 0"
    "length (foods stocked_world) = 3"
    by (simp_all add: stocked_world_def new_food_def)
  have fa: "state forager = SEARCHING" "panic_timer forager = 0"
    by (simp_all add: forager_def new_ant_def)
  have "state forager = SEARCHING \<and> panic_timer forager \<le> 0 \<and> ?b = ?b \<and>
    1 < length (foods stocked_world) \<and>
    vnorm (vsub (pos ?b) (food_pos (foods stocked_world ! 1))) < 10 \<and>
    amount (foods stocked_world ! 1) > 0 \<and>
    (\<forall>j<1. \<not> (vnorm (vsub (pos ?b) (food_pos (foods stocked_world ! j))) < 10 \<and>
                amount (foods stocked_world ! j) > 0))"
    by (simp add: fp fa near)
  with r pickup_of_food [of forager ?b "(640, 360)" 0 0 stocked_world 1
      "add_food 300 200 (init_simulation (\<lambda>i. 0))"]
  show ?thesis
    by (simp add: stocked_world_def new_food_def add_food_def)
qed

subsection \<open>Patience and the start of a panic\<close>

lemma interact_patience:
  "patience (fst (interact_with_objects c a w)) = patience a \<or>
   patience (fst (interact_with_objects c a w)) = MAX_PATIENCE"
  by (simp add: interact_with_objects_def split: task.splits option.splits)

lemma before_interaction_counters:
  "patience (before_interaction c rw rj a w)
     = patience (start_panic (recover (on_trail a w) (decide c rw a w)))"
  "panic_timer (before_interaction c rw rj a w)
     = panic_timer (start_panic (recover (on_trail a w) (decide c rw a w)))"
  by (simp_all add: before_interaction_def)

lemma bookkeeping_range:
  assumes "0 \<le> patience a" and "patience a \<le> MAX_PATIENCE"
  shows "0 \<le> patience (start_panic (recover (on_trail a w) (decide c rw a w))) \<and>
         patience (start_panic (recover (on_trail a w) (decide c rw a w))) \<le> MAX_PATIENCE"
  using assms
  by (simp add: start_panic_def recover_def decide_def MAX_PATIENCE_def)

lemma panic_update_patience [simp]: "patience (panic_update rw rj a) = patience a"
  by (simp add: panic_update_def Let_def)

lemma ant_update_patience_range:
  assumes "0 \<le> patience a \<and> patience a \<le> MAX_PATIENCE"
  shows "0 \<le> patience (fst (ant_update c rw rj a w)) \<and>
         patience (fst (ant_update c rw rj a w)) \<le> MAX_PATIENCE"
proof (cases "panic_timer a > 0")
  case True
  with assms show ?thesis by (simp add: ant_update_def)
next
  case False
  let ?b = "before_interaction c rw rj a w"
  have b: "0 \<le> patience ?b \<and> patience ?b \<le> MAX_PATIENCE"
    using assms bookkeeping_range [of a w c rw] by (simp add: before_interaction_counters)
  have "0 \<le> MAX_PATIENCE" by (simp add: MAX_PATIENCE_def)
  with b interact_patience [of c ?b w] False show ?thesis
    by (auto simp: ant_update_def)
qed

lemma ant_update_reset:
  assumes "panic_timer a \<le> 0"
    and "patience (recover (on_trail a w) (decide c rw a w)) \<le> 0"
  shows "patience (fst (ant_update c rw rj a w)) = MAX_PATIENCE \<and>
         panic_timer (fst (ant_update c rw rj a w)) = PANIC_DURATION"
proof -
  let ?b = "before_interaction c rw rj a w"
  from assms(2) have "patience ?b = MAX_PATIENCE" "panic_timer ?b = PANIC_DURATION"
    by (simp_all add: before_interaction_counters start_panic_def)
  with interact_patience [of c ?b w] assms(1) show ?thesis
    by (auto simp: ant_update_def)
qed

lemma sim_update_ants:
  "ants (sim_update d s) = fst (update_ants (colony_pos s) d 0 (ants s) (env s))"
  by (simp add: sim_update_def Let_def)

lemma reachable_patience:
  "reachable s \<Longrightarrow> \<forall>a\<in>set (ants s). 0 \<le> patience a \<and> patience a \<le> MAX_PATIENCE"
proof (induction rule: reachable.induct)
  case (init a0)
  show ?case by (simp add: init_simulation_def Let_def new_ant_def MAX_PATIENCE_def)
next
  case (click s x y)
  then show ?case by (simp add: add_food_def)
next
  case (tick s d)
  show ?case
    unfolding sim_update_ants
    by (rule update_ants_ant_inv
          [where P = "\<lambda>a. 0 \<le> patience a \<and> patience a \<le> MAX_PATIENCE"])
       (use tick.IH ant_update_patience_range in blast)+
qed

text \<open>
  C2: in every reachable state the patience of every agent lies in \<open>[0, MAX_PATIENCE]\<close>,
  and every update keeps it there. When the bookkeeping of a normal-branch tick brings
  the patience to 0 or below, the agent leaves that same update with its patience at
  \<open>MAX_PATIENCE\<close> and its panic timer at exactly \<open>PANIC_DURATION\<close>.
\<close>

theorem patience_bounds_and_reset:
  "(reachable s \<longrightarrow> (\<forall>b\<in>set (ants s). 0 \<le> patience b \<and> patience b \<le> MAX_PATIENCE)) \<and>
   (0 \<le> patience a \<and> patience a \<le> MAX_PATIENCE \<longrightarrow>
      0 \<le> patience (fst (ant_update c rw rj a w)) \<and>
      patience (fst (ant_update c rw rj a w)) \<le> MAX_PATIENCE) \<and>
   (panic_timer a \<le> 0 \<and> patience (recover (on_trail a w) (decide c rw a w)) \<le> 0 \<longrightarrow>
      patience (fst (ant_update c rw rj a w)) = MAX_PATIENCE \<and>
      panic_timer (fst (ant_update c rw rj a w)) = PANIC_DURATION)"
  using reachable_patience [of s] ant_update_patience_range [of a c rw rj w]
    ant_update_reset [of a w c rw rj]
  by blast

lemma weary_on_trail: "on_trail weary trail_world"
  by (simp add: on_trail_def smell_ahead_def sensor_pos_def sensed_grid_def weary_def
      trail_world_def ANT_SENSOR_DISTANCE_def heading_def vadd_def smul_def
      get_pheromone_value_def py_int_def in_grid_def screen_defs zero_grid_def)

lemma sim_update_ants_length: "length (ants (sim_update d s)) = length (ants s)"
  by (simp add: sim_update_ants)

theorem patience_bounds_and_reset_witness:
  "reachable (sim_update (\<lambda>i. (0, 0)) (init_simulation (\<lambda>i. 0))) \<and>
   0 \<le> patience (hd (ants (sim_update (\<lambda>i. (0, 0)) (init_simulation (\<lambda>i. 0))))) \<and>
   patience (hd (ants (sim_update (\<lambda>i. (0, 0)) (init_simulation (\<lambda>i. 0))))) \<le> MAX_PATIENCE \<and>
   patience weary = 1 \<and>
   patience (recover (on_trail weary trail_world) (decide (640, 360) 0 weary trail_world)) = 0 \<and>
   patience (fst (ant_update (640, 360) 0 0 weary trail_world)) = MAX_PATIENCE \<and>
   panic_timer (fst (ant_update (640, 360) 0 0 weary trail_world)) = PANIC_DURATION"
proof -
  let ?s = "sim_update (\<lambda>i. (0, 0)) (init_simulation (\<lambda>i. 0))"
  have r: "reachable ?s"
    by (intro reachable.tick reachable.init) (simp_all add: valid_draw_def)
  have "length (ants ?s) = ANT_COUNT"
    by (simp add: sim_update_ants_length init_simulation_def Let_def)
  then have "ants ?s \<noteq> []" by (auto simp: ANT_COUNT_def)
  then have m: "hd (ants ?s) \<in> set (ants ?s)" by simp
  have p: "patience weary = 1" "panic_timer weary \<le> 0" by (simp_all add: weary_def)
  have z: "patience (recover (on_trail weary trail_world)
                       (decide (640, 360) 0 weary trail_world)) = 0"
    by (simp add: recover_def decide_def weary_on_trail p)
  from patience_bounds_and_reset [of ?s weary "(640, 360)" 0 0 trail_world] r m p z
  show ?thesis by (simp add: MAX_PATIENCE_def)
qed

subsection \<open>The range of the pheromone values\<close>

lemma deposit_bounded:
  assumes "grid_bounded g" and "0 \<le> amt"
  shows "grid_bounded (deposit p amt g)"
  using assms
  by (auto simp: grid_bounded_def deposit_def Let_def MAX_PHEROMONE_def)

lemma evaporate_bounded:
  assumes "grid_bounded g"
  shows "grid_bounded (evaporate g)"
  unfolding grid_bounded_def evaporate_def
proof (intro allI impI)
  fix y x assume "in_grid x y"
  with assms have "0 \<le> g y x" "g y x \<le> MAX_PHEROMONE" by (simp_all add: grid_bounded_def)
  then show "0 \<le> g y x * EVAPORATION_RATE \<and> g y x * EVAPORATION_RATE \<le> MAX_PHEROMONE"
    by (simp add: EVAPORATION_RATE_def)
qed

lemma weighted_sum_bounds:
  assumes "\<forall>k\<in>set ks. 0 \<le> wt k" and "\<forall>k\<in>set ks. 0 \<le> f k \<and> f k \<le> m"
  shows "0 \<le> sum_list (map (\<lambda>k. wt k * f k) ks) \<and>
         sum_list (map (\<lambda>k. wt k * f k) ks) \<le> sum_list (map wt ks) * (m::real)"
  using assms
proof (induction ks)
  case Nil
  then show ?case by simp
next
  case (Cons k ks)
  then have ih: "0 \<le> sum_list (map (\<lambda>k. wt k * f k) ks)"
    "sum_list (map (\<lambda>k. wt k * f k) ks) \<le> sum_list (map wt ks) * m"
    by simp_all
  from Cons.prems have "0 \<le> wt k" "0 \<le> f k" "f k \<le> m" by simp_all
  then have "0 \<le> wt k * f k" "wt k * f k \<le> wt k * m"
    by (simp_all add: mult_left_mono)
  with ih show ?case by (simp add: distrib_right)
qed

lemma gauss_phi_pos: "0 < gauss_phi k"
  by (simp add: gauss_phi_def)

lemma gauss_norm_pos: "0 < sum_list (map gauss_phi gauss_offsets)"
  using gauss_phi_pos by (simp add: gauss_offsets_def add_pos_pos)

lemma gauss_weight_nonneg: "0 \<le> gauss_weight k"
  using gauss_phi_pos [of k] gauss_norm_pos by (simp add: gauss_weight_def)

lemma sum_list_divide: "sum_list (map (\<lambda>k. f k / (c::real)) ks) = sum_list (map f ks) / c"
  by (induction ks) (simp_all add: add_divide_distrib)

lemma gauss_weight_sum: "sum_list (map gauss_weight gauss_offsets) = 1"
proof -
  have "sum_list (map gauss_weight gauss_offsets)
          = sum_list (map gauss_phi gauss_offsets) / sum_list (map gauss_phi gauss_offsets)"
    unfolding gauss_weight_def by (rule sum_list_divide)
  with gauss_norm_pos show ?thesis by simp
qed

lemma reflect_idx_range:
  assumes "0 \<le> j" "j < n" "k \<in> set gauss_offsets" "2 \<le> n"
  shows "0 \<le> reflect_idx n (j + k) \<and> reflect_idx n (j + k) < n"
  using assms by (auto simp: reflect_idx_def gauss_offsets_def)

lemma filter_axis0_bounded:
  assumes "grid_bounded g"
  shows "grid_bounded (filter_axis0 g)"
  unfolding grid_bounded_def
proof (intro allI impI)
  fix y x assume in_g: "in_grid x y"
  let ?f = "\<lambda>k. g (reflect_idx SCREEN_HEIGHT (y + k)) x"
  have "\<forall>k\<in>set gauss_offsets. 0 \<le> ?f k \<and> ?f k \<le> MAX_PHEROMONE"
  proof
    fix k assume "k \<in> set gauss_offsets"
    with in_g have "in_grid x (reflect_idx SCREEN_HEIGHT (y + k))"
      using reflect_idx_range [of y SCREEN_HEIGHT k]
      by (simp add: in_grid_def SCREEN_HEIGHT_def)
    with assms show "0 \<le> ?f k \<and> ?f k \<le> MAX_PHEROMONE"
      by (simp add: grid_bounded_def)
  qed
  with weighted_sum_bounds [of gauss_offsets gauss_weight ?f MAX_PHEROMONE]
  have "0 \<le> sum_list (map (\<lambda>k. gauss_weight k * ?f k) gauss_offsets) \<and>
        sum_list (map (\<lambda>k. gauss_weight k * ?f k) gauss_offsets) \<le> MAX_PHEROMONE"
    by (simp add: gauss_weight_nonneg gauss_weight_sum)
  with in_g show "0 \<le> filter_axis0 g y x \<and> filter_axis0 g y x \<le> MAX_PHEROMONE"
    by (simp add: filter_axis0_def)
qed

lemma filter_axis1_bounded:
  assumes "grid_bounded g"
  shows "grid_bounded (filter_axis1 g)"
  unfolding grid_bounded_def
proof (intro allI impI)
  fix y x assume in_g: "in_grid x y"
  let ?f = "\<lambda>k. g y (reflect_idx SCREEN_WIDTH (x + k))"
  have "\<forall>k\<in>set gauss_offsets. 0 \<le> ?f k \<and> ?f k \<le> MAX_PHEROMONE"
  proof
    fix k assume "k \<in> set gauss_offsets"
    with in_g have "in_grid (reflect_idx SCREEN_WIDTH (x + k)) y"
      using reflect_idx_range [of x SCREEN_WIDTH k]
      by (simp add: in_grid_def SCREEN_WIDTH_def)
    with assms show "0 \<le> ?f k \<and> ?f k \<le> MAX_PHEROMONE"
      by (simp add: grid_bounded_def)
  qed
  with weighted_sum_bounds [of gauss_offsets gauss_weight ?f MAX_PHEROMONE]
  have "0 \<le> sum_list (map (\<lambda>k. gauss_weight k * ?f k) gauss_offsets) \<and>
        sum_list (map (\<lambda>k. gauss_weight k * ?f k) gauss_offsets) \<le> MAX_PHEROMONE"
    by (simp add: gauss_weight_nonneg gauss_weight_sum)
  with in_g show "0 \<le> filter_axis1 g y x \<and> filter_axis1 g y x \<le> MAX_PHEROMONE"
    by (simp add: filter_axis1_def)
qed

lemma gaussian_filter_bounded: "grid_bounded g \<Longrightarrow> grid_bounded (gaussian_filter g)"
  by (simp add: gaussian_filter_def filter_axis0_bounded filter_axis1_bounded)

lemma interact_grids_bounded:
  assumes "grids_bounded w"
  shows "grids_bounded (snd (interact_with_objects c a w))"
proof -
  have "0 \<le> PHEROMONE_DEPOSIT_AMOUNT * (1 / 2)" "0 \<le> PHEROMONE_DEPOSIT_AMOUNT"
    by (simp_all add: PHEROMONE_DEPOSIT_AMOUNT_def)
  with assms show ?thesis
    by (auto simp: grids_bounded_def interact_with_objects_def deposit_bounded
        split: task.splits option.splits)
qed

lemma ant_update_grids_bounded:
  "grids_bounded w \<Longrightarrow> grids_bounded (snd (ant_update c rw rj a w))"
  by (simp add: ant_update_def interact_grids_bounded)

lemma sim_update_env:
  "env (sim_update d s) =
     (let w1 = evaporate_all (snd (update_ants (colony_pos s) d 0 (ants s) (env s)))
      in if frame_count s mod DIFFUSION_INTERVAL = 0 then diffuse_all w1 else w1)"
  by (simp add: sim_update_def Let_def)

lemma evaporate_all_bounded: "grids_bounded w \<Longrightarrow> grids_bounded (evaporate_all w)"
  by (simp add: grids_bounded_def evaporate_all_def evaporate_bounded)

lemma diffuse_all_bounded: "grids_bounded w \<Longrightarrow> grids_bounded (diffuse_all w)"
  by (simp add: grids_bounded_def diffuse_all_def gaussian_filter_bounded)

lemma zero_grid_bounded: "grid_bounded zero_grid"
  by (simp add: grid_bounded_def zero_grid_def MAX_PHEROMONE_def)

lemma reachable_grids_bounded: "reachable s \<Longrightarrow> grids_bounded (env s)"
proof (induction rule: reachable.induct)
  case (init a0)
  show ?case
    by (simp add: init_simulation_def Let_def grids_bounded_def zero_grid_bounded)
next
  case (click s x y)
  then show ?case by (simp add: add_food_def grids_bounded_def)
next
  case (tick s d)
  have "grids_bounded (snd (update_ants (colony_pos s) d 0 (ants s) (env s)))"
    by (rule update_ants_world_inv [where Q = grids_bounded])
       (use tick.IH ant_update_grids_bounded in blast)+
  then show ?case
    by (simp add: sim_update_env Let_def evaporate_all_bounded diffuse_all_bounded)
qed

text \<open>
  C4: in every reachable state every cell of the home-scent grid and of the food-scent grid
  lies in \<open>[0, MAX_PHEROMONE]\<close>. The steps that write the grids keep the range: the two
  deposits saturate at the cap, and the evaporation and the Gaussian filter map a grid
  within the range to a grid within the range.
\<close>

theorem pheromone_bounds:
  "(reachable s \<and> in_grid x y \<longrightarrow>
      0 \<le> home_pheromones (env s) y x \<and> home_pheromones (env s) y x \<le> MAX_PHEROMONE \<and>
      0 \<le> food_pheromones (env s) y x \<and> food_pheromones (env s) y x \<le> MAX_PHEROMONE) \<and>
   (grid_bounded g \<longrightarrow>
      grid_bounded (deposit p (PHEROMONE_DEPOSIT_AMOUNT * (1 / 2)) g) \<and>
      grid_bounded (deposit p PHEROMONE_DEPOSIT_AMOUNT g) \<and>
      grid_bounded (evaporate g) \<and>
      grid_bounded (gaussian_filter g))"
proof (intro conjI impI)
  assume "reachable s \<and> in_grid x y"
  then have "grids_bounded (env s)" and xy: "in_grid x y"
    by (simp_all add: reachable_grids_bounded)
  then have "grid_bounded (home_pheromones (env s))" "grid_bounded (food_pheromones (env s))"
    by (simp_all add: grids_bounded_def)
  with xy show "0 \<le> home_pheromones (env s) y x" "home_pheromones (env s) y x \<le> MAX_PHEROMONE"
    "0 \<le> food_pheromones (env s) y x" "food_pheromones (env s) y x \<le> MAX_PHEROMONE"
    by (simp_all add: grid_bounded_def)
next
  assume g: "grid_bounded g"
  then show "grid_bounded (deposit p (PHEROMONE_DEPOSIT_AMOUNT * (1 / 2)) g)"
    by (rule deposit_bounded) (simp add: PHEROMONE_DEPOSIT_AMOUNT_def)
  from g show "grid_bounded (deposit p PHEROMONE_DEPOSIT_AMOUNT g)"
    by (rule deposit_bounded) (simp add: PHEROMONE_DEPOSIT_AMOUNT_def)
  from g show "grid_bounded (evaporate g)" by (rule evaporate_bounded)
  from g show "grid_bounded (gaussian_filter g)" by (rule gaussian_filter_bounded)
qed


theorem pheromone_bounds_witness:
  "reachable (sim_update (\<lambda>i. (0, 0)) (init_simulation (\<lambda>i. 0))) \<and>
   in_grid 640 360 \<and>
   0 \<le> home_pheromones (env (sim_update (\<lambda>i. (0, 0)) (init_simulation (\<lambda>i. 0)))) 360 640 \<and>
   home_pheromones (env (sim_update (\<lambda>i. (0, 0)) (init_simulation (\<lambda>i. 0)))) 360 640
     \<le> MAX_PHEROMONE \<and>
   grid_bounded zero_grid \<and>
   grid_bounded (deposit (3, 4) PHEROMONE_DEPOSIT_AMOUNT zero_grid) \<and>
   grid_bounded (evaporate zero_grid) \<and>
   grid_bounded (gaussian_filter zero_grid)"
proof -
  let ?s = "sim_update (\<lambda>i. (0, 0)) (init_simulation (\<lambda>i. 0))"
  have r: "reachable ?s"
    by (intro reachable.tick reachable.init) (simp_all add: valid_draw_def)
  have c: "in_grid 640 360" by (simp add: in_grid_def screen_defs)
  from pheromone_bounds [of ?s 640 360 zero_grid "(3, 4)"] r c zero_grid_bounded
  show ?thesis by simp
qed

subsection \<open>The stored heading\<close>

lemma empty_world_smells [simp]:
  "smell_ahead a empty_world = 0" "smell_left a empty_world = 0"
  "smell_right a empty_world = 0" "\<not> on_trail a empty_world"
  by (simp_all add: on_trail_def smell_ahead_def smell_left_def smell_right_def
      sensed_grid_def empty_world_def get_pheromone_value_def zero_grid_def Let_def
      split: task.splits)







lemma panic_update_explicit:
  "panic_update rw rj b =
     (let t = angle b + rw * WANDER_STRENGTH * 2;
          x = fst (pos b) + speed b * cos t;
          y = snd (pos b) + speed b * sin t;
          inside = (20 < x \<and> x < real_of_int SCREEN_WIDTH - 20 \<and>
                    20 < y \<and> y < real_of_int SCREEN_HEIGHT - 20)
      in b\<lparr>pos := if inside then (x, y)
                    else (min (real_of_int SCREEN_WIDTH - 20) (max x 20),
                          min (real_of_int SCREEN_HEIGHT - 20) (max y 20)),
            angle := if inside then t else t + (pi + rj),
            panic_timer := panic_timer b - 1\<rparr>)"
  by (simp add: panic_update_def Let_def move_def handle_boundaries_def vadd_def smul_def
      heading_def clip_def)






subsection \<open>The schedule of a panic\<close>

lemma run_ant_Suc: "run_ant c E (Suc n) a = fst (tick_of c E n a)"
  by (simp add: tick_of_def)

lemma interact_no_goal:
  "\<not> reaches_goal c b w \<Longrightarrow> fst (interact_with_objects c b w) = b"
  by (simp add: reaches_goal_def interact_with_objects_def split: task.splits option.splits)

lemma trail_tick:
  assumes "panic_timer a = 0" and "on_trail a w"
    and "\<not> reaches_goal c (before_interaction c rw rj a w) w"
    and "1 < patience a"
  shows "panic_timer (fst (ant_update c rw rj a w)) = 0 \<and>
         patience (fst (ant_update c rw rj a w)) = patience a - 1"
proof -
  let ?b = "before_interaction c rw rj a w"
  from assms(1) have "fst (ant_update c rw rj a w) = fst (interact_with_objects c ?b w)"
    by (simp add: ant_update_def)
  also from assms(3) have "\<dots> = ?b" by (rule interact_no_goal)
  finally have eq: "fst (ant_update c rw rj a w) = ?b" .
  from assms(1,2,4) show ?thesis
    unfolding eq
    by (simp add: before_interaction_counters start_panic_def recover_def decide_def)
qed

lemma trail_last_tick:
  assumes "panic_timer a = 0" and "on_trail a w" and "patience a = 1"
  shows "panic_timer (fst (ant_update c rw rj a w)) = PANIC_DURATION \<and>
         patience (fst (ant_update c rw rj a w)) = MAX_PATIENCE"
proof -
  from assms have "patience (recover (on_trail a w) (decide c rw a w)) \<le> 0"
    by (simp add: recover_def decide_def)
  with assms(1) ant_update_reset [of a w c rw rj] show ?thesis by simp
qed

lemma panic_tick:
  assumes "0 < panic_timer a"
  shows "ant_update c rw rj a w = (panic_update rw rj a, w)"
    and "panic_timer (panic_update rw rj a) = panic_timer a - 1"
    and "patience (panic_update rw rj a) = patience a"
    and "state (panic_update rw rj a) = state a"
  using assms by (simp_all add: ant_update_def panic_update_def Let_def)

lemma countdown:
  assumes "patience a = MAX_PATIENCE" and "panic_timer a = 0"
    and trail: "\<forall>i < nat MAX_PATIENCE. on_trail_at c E i a \<and> \<not> goal_at c E i a"
  shows "i < nat MAX_PATIENCE \<Longrightarrow>
           panic_timer (run_ant c E i a) = 0 \<and>
           patience (run_ant c E i a) = MAX_PATIENCE - int i"
proof (induction i)
  case 0
  from assms show ?case by simp
next
  case (Suc i)
  let ?a = "run_ant c E i a"
  from Suc have now: "panic_timer ?a = 0" "patience ?a = MAX_PATIENCE - int i"
    and i: "i < nat MAX_PATIENCE"
    by simp_all
  from trail i have "on_trail ?a (snd (E i))"
    and "\<not> reaches_goal c
           (before_interaction c (fst (fst (E i))) (snd (fst (E i))) ?a (snd (E i)))
           (snd (E i))"
    by (simp_all add: on_trail_at_def goal_at_def)
  moreover from Suc.prems now have "1 < patience ?a" by simp
  ultimately show ?case
    using trail_tick [of ?a "snd (E i)" c "fst (fst (E i))" "snd (fst (E i))"] now
    by (simp add: run_ant_Suc tick_of_def)
qed

lemma panic_starts:
  assumes "patience a = MAX_PATIENCE" and "panic_timer a = 0"
    and trail: "\<forall>i < nat MAX_PATIENCE. on_trail_at c E i a \<and> \<not> goal_at c E i a"
  shows "panic_timer (run_ant c E (nat MAX_PATIENCE) a) = PANIC_DURATION \<and>
         patience (run_ant c E (nat MAX_PATIENCE) a) = MAX_PATIENCE"
proof -
  have n: "nat MAX_PATIENCE = Suc 299" by (simp add: MAX_PATIENCE_def)
  let ?a = "run_ant c E 299 a"
  have "panic_timer ?a = 0 \<and> patience ?a = MAX_PATIENCE - int 299"
    by (rule countdown [OF assms]) (simp add: MAX_PATIENCE_def)
  then have t: "panic_timer ?a = 0" and p: "patience ?a = 1"
    by (simp_all add: MAX_PATIENCE_def)
  from trail have "on_trail ?a (snd (E 299))"
    by (simp add: on_trail_at_def MAX_PATIENCE_def)
  with t show ?thesis
    unfolding n run_ant_Suc tick_of_def using p by (rule trail_last_tick)
qed

lemma panic_runs:
  assumes "patience a = MAX_PATIENCE" and "panic_timer a = 0"
    and trail: "\<forall>i < nat MAX_PATIENCE. on_trail_at c E i a \<and> \<not> goal_at c E i a"
  shows "j \<le> nat PANIC_DURATION \<Longrightarrow>
           panic_timer (run_ant c E (nat MAX_PATIENCE + j) a) = PANIC_DURATION - int j"
proof (induction j)
  case 0
  from panic_starts [OF assms] show ?case by simp
next
  case (Suc j)
  let ?a = "run_ant c E (nat MAX_PATIENCE + j) a"
  from Suc have now: "panic_timer ?a = PANIC_DURATION - int j" by simp
  with Suc.prems have "0 < panic_timer ?a" by simp
  from panic_tick(1,2) [OF this] now show ?case
    by (simp add: run_ant_Suc tick_of_def)
qed

lemma sensor_in_grid:
  assumes "10 \<le> fst (pos a)" and "fst (pos a) < real_of_int SCREEN_WIDTH - 10"
    and "10 \<le> snd (pos a)" and "snd (pos a) < real_of_int SCREEN_HEIGHT - 10"
  shows "in_grid (py_int (fst (sensor_pos a off))) (py_int (snd (sensor_pos a off)))"
proof -
  let ?t = "angle a + off"
  have c: "- 1 \<le> cos ?t" "cos ?t \<le> 1" and s: "- 1 \<le> sin ?t" "sin ?t \<le> 1"
    by simp_all
  have x: "0 \<le> fst (pos a) + 10 * cos ?t" "fst (pos a) + 10 * cos ?t < real_of_int SCREEN_WIDTH"
    using assms(1,2) c by linarith+
  have y: "0 \<le> snd (pos a) + 10 * sin ?t" "snd (pos a) + 10 * sin ?t < real_of_int SCREEN_HEIGHT"
    using assms(3,4) s by linarith+
  from py_int_inside [OF x] py_int_inside [OF y] show ?thesis
    by (simp add: in_grid_def sensor_pos_def ANT_SENSOR_DISTANCE_def vadd_def smul_def
        heading_def)
qed

lemma scented_smells:
  assumes "state a = SEARCHING"
    and "10 \<le> fst (pos a)" and "fst (pos a) < real_of_int SCREEN_WIDTH - 10"
    and "10 \<le> snd (pos a)" and "snd (pos a) < real_of_int SCREEN_HEIGHT - 10"
  shows "smell_ahead a scented_world = 500" "smell_left a scented_world = 500"
    "smell_right a scented_world = 500" "on_trail a scented_world"
  using assms(1) sensor_in_grid [OF assms(2-)]
  by (simp_all add: on_trail_def smell_ahead_def smell_left_def smell_right_def
      sensed_grid_def scented_world_def get_pheromone_value_def full_grid_def Let_def)

lemma no_bounce_inside:
  assumes "20 < fst (pos b)" and "fst (pos b) < real_of_int SCREEN_WIDTH - 20"
    and "20 < snd (pos b)" and "snd (pos b) < real_of_int SCREEN_HEIGHT - 20"
  shows "handle_boundaries rj b = b"
  using assms by (simp add: handle_boundaries_def Let_def)

lemma walker_step:
  assumes "state a = SEARCHING" and "angle a = 0" and "speed a = 3 / 2"
    and "pos a = (x, 360)" and "100 \<le> x" and "x \<le> 1000"
  shows "state (fst (ant_update c 0 0 a scented_world)) = SEARCHING \<and>
         angle (fst (ant_update c 0 0 a scented_world)) = 0 \<and>
         speed (fst (ant_update c 0 0 a scented_world)) = 3 / 2 \<and>
         pos (fst (ant_update c 0 0 a scented_world)) = (x + 3 / 2, 360)"
proof -
  have sm: "smell_ahead a scented_world = 500" "smell_left a scented_world = 500"
    "smell_right a scented_world = 500"
    by (rule scented_smells; use assms in \<open>simp add: screen_defs\<close>)+
  have st: "steer c 0 a scented_world = 0"
    using assms(1,2) sm by (simp add: steer_def)
  show ?thesis
  proof (cases "0 < panic_timer a")
    case True
    define m where "m = (move (a\<lparr>angle := angle a + 0 * WANDER_STRENGTH * 2\<rparr>))
                          \<lparr>panic_timer := panic_timer a - 1\<rparr>"
    have upd: "panic_update 0 0 a = handle_boundaries 0 m"
      unfolding m_def by (simp add: panic_update_def Let_def)
    have p: "pos m = (x + 3 / 2, 360)" and f: "state m = SEARCHING" "angle m = 0"
      "speed m = 3 / 2"
      by (simp_all add: m_def assms move_def vadd_def smul_def heading_def)
    from assms(5,6) have "handle_boundaries 0 m = m"
      by (intro no_bounce_inside) (simp_all add: p screen_defs)
    with True upd have "fst (ant_update c 0 0 a scented_world) = m"
      by (simp add: ant_update_def)
    with p f show ?thesis by simp
  next
    case False
    define m where
      "m = move (start_panic (recover (on_trail a scented_world) (decide c 0 a scented_world)))"
    have upd: "before_interaction c 0 0 a scented_world = handle_boundaries 0 m"
      unfolding m_def by (simp add: before_interaction_def)
    have p: "pos m = (x + 3 / 2, 360)" and f: "state m = SEARCHING" "angle m = 0"
      "speed m = 3 / 2"
      by (simp_all add: m_def assms st move_def vadd_def smul_def heading_def)
    from assms(5,6) have hb: "handle_boundaries 0 m = m"
      by (intro no_bounce_inside) (simp_all add: p screen_defs)
    have "fst (interact_with_objects c m scented_world) = m"
      using f(1) by (simp add: interact_with_objects_def) (simp add: scented_world_def)
    with False upd hb have "fst (ant_update c 0 0 a scented_world) = m"
      by (simp add: ant_update_def)
    with p f show ?thesis by simp
  qed
qed

lemma scented_env_parts:
  "n < 300 \<Longrightarrow> fst (scented_env n) = (0, 0)"
  "300 \<le> n \<Longrightarrow> fst (scented_env n) = (1, 0)"
  "snd (scented_env n) = scented_world"
  by (simp_all add: scented_env_def)

lemma walker_run:
  "i \<le> 300 \<Longrightarrow>
     state (run_ant c scented_env i walker) = SEARCHING \<and>
     angle (run_ant c scented_env i walker) = 0 \<and>
     speed (run_ant c scented_env i walker) = 3 / 2 \<and>
     pos (run_ant c scented_env i walker) = (100 + 3 / 2 * real i, 360)"
proof (induction i)
  case 0
  show ?case by (simp add: walker_def new_ant_def ANT_SPEED_def)
next
  case (Suc i)
  let ?a = "run_ant c scented_env i walker"
  from Suc have a: "state ?a = SEARCHING" "angle ?a = 0" "speed ?a = 3 / 2"
    "pos ?a = (100 + 3 / 2 * real i, 360)"
    by simp_all
  from Suc.prems have "100 \<le> 100 + 3 / 2 * real i" "100 + 3 / 2 * real i \<le> 1000"
    by simp_all
  moreover have "100 + 3 / 2 * real i + 3 / 2 = 100 + 3 / 2 * real (Suc i)"
    by (simp add: distrib_left)
  moreover from Suc.prems have "fst (scented_env i) = (0, 0)"
    by (intro scented_env_parts) simp
  ultimately show ?case
    using walker_step [OF a, of c] by (simp add: scented_env_parts)
qed

lemma walker_on_trail:
  "\<forall>i < nat MAX_PATIENCE.
     on_trail_at c scented_env i walker \<and> \<not> goal_at c scented_env i walker"
proof (intro allI impI conjI)
  fix i assume "i < nat MAX_PATIENCE"
  then have i: "i \<le> 300" by (simp add: MAX_PATIENCE_def)
  let ?a = "run_ant c scented_env i walker"
  from walker_run [OF i, of c] have a: "state ?a = SEARCHING"
    "pos ?a = (100 + 3 / 2 * real i, 360)"
    by simp_all
  from i have "100 + 3 / 2 * real i \<le> 550" by simp
  with a show "on_trail_at c scented_env i walker"
    unfolding on_trail_at_def scented_env_parts
    by (intro scented_smells(4)) (simp_all add: screen_defs)
  from a(1) show "\<not> goal_at c scented_env i walker"
    by (simp add: goal_at_def reaches_goal_def scented_env_parts)
       (simp add: scented_world_def)
qed

text \<open>
  C8: an agent leaves a reset with full patience and no panic. If on each of the next
  \<open>MAX_PATIENCE\<close> ticks it senses scent over the threshold ahead and its interaction does
  not reset the patience again, then it is not in panic before tick \<open>MAX_PATIENCE\<close>, its
  patience falling by one per tick, and tick \<open>MAX_PATIENCE\<close> leaves it in panic with the
  timer at \<open>PANIC_DURATION\<close>. In each of the next \<open>PANIC_DURATION\<close> ticks the agent comes
  out with its heading plus the wander draw times twice the wander strength, its position
  one step along that heading, both put through the boundary rule (position clipped and
  heading plus \<open>pi\<close> and jitter when the step leaves the open play rectangle), its timer
  one less, and its task state, patience and speed as they were; the world is returned
  untouched, so nothing is sensed, picked up or deposited. After these ticks the timer is
  0, and the tick that follows runs sensing, decision, bookkeeping, move, boundaries and
  interaction again.
\<close>

theorem panic_schedule:
  assumes "patience a = MAX_PATIENCE" and "panic_timer a = 0"
    and "\<forall>i < nat MAX_PATIENCE. on_trail_at c E i a \<and> \<not> goal_at c E i a"
  shows "(\<forall>i < nat MAX_PATIENCE.
            panic_timer (run_ant c E i a) = 0 \<and>
            patience (run_ant c E i a) = MAX_PATIENCE - int i) \<and>
         panic_timer (run_ant c E (nat MAX_PATIENCE) a) = PANIC_DURATION \<and>
         (\<forall>j < nat PANIC_DURATION.
            let k = nat MAX_PATIENCE + j;
                b = run_ant c E k a;
                rw = fst (fst (E k));
                rj = snd (fst (E k));
                t = angle b + rw * WANDER_STRENGTH * 2;
                x = fst (pos b) + speed b * cos t;
                y = snd (pos b) + speed b * sin t;
                inside = (20 < x \<and> x < real_of_int SCREEN_WIDTH - 20 \<and>
                          20 < y \<and> y < real_of_int SCREEN_HEIGHT - 20)
            in panic_timer b = PANIC_DURATION - int j \<and>
               tick_of c E k a =
                 (b\<lparr>pos := if inside then (x, y)
                              else (min (real_of_int SCREEN_WIDTH - 20) (max x 20),
                                    min (real_of_int SCREEN_HEIGHT - 20) (max y 20)),
                     angle := if inside then t else t + (pi + rj),
                     panic_timer := panic_timer b - 1\<rparr>,
                  snd (E k))) \<and>
         (let k = nat MAX_PATIENCE + nat PANIC_DURATION;
              b = run_ant c E k a;
              rw = fst (fst (E k));
              rj = snd (fst (E k));
              w = snd (E k)
          in panic_timer b = 0 \<and>
             tick_of c E k a =
               interact_with_objects c
                 (handle_boundaries rj
                    (move (start_panic (recover (on_trail b w) (decide c rw b w)))))
                 w)"
proof (intro conjI allI impI)
  fix i assume "i < nat MAX_PATIENCE"
  with countdown [OF assms]
  show "panic_timer (run_ant c E i a) = 0"
    and "patience (run_ant c E i a) = MAX_PATIENCE - int i"
    by simp_all
next
  from panic_starts [OF assms]
  show "panic_timer (run_ant c E (nat MAX_PATIENCE) a) = PANIC_DURATION" by simp
next
  fix j assume j: "j < nat PANIC_DURATION"
  let ?k = "nat MAX_PATIENCE + j"
  let ?b = "run_ant c E ?k a"
  from j panic_runs [OF assms, of j]
  have t: "panic_timer ?b = PANIC_DURATION - int j" by simp
  with j have "0 < panic_timer ?b" by simp
  then have "tick_of c E ?k a = (panic_update (fst (fst (E ?k))) (snd (fst (E ?k))) ?b, snd (E ?k))"
    unfolding tick_of_def by (rule panic_tick(1))
  with t show "let k = nat MAX_PATIENCE + j;
                b = run_ant c E k a;
                rw = fst (fst (E k));
                rj = snd (fst (E k));
                t = angle b + rw * WANDER_STRENGTH * 2;
                x = fst (pos b) + speed b * cos t;
                y = snd (pos b) + speed b * sin t;
                inside = (20 < x \<and> x < real_of_int SCREEN_WIDTH - 20 \<and>
                          20 < y \<and> y < real_of_int SCREEN_HEIGHT - 20)
            in panic_timer b = PANIC_DURATION - int j \<and>
               tick_of c E k a =
                 (b\<lparr>pos := if inside then (x, y)
                              else (min (real_of_int SCREEN_WIDTH - 20) (max x 20),
                                    min (real_of_int SCREEN_HEIGHT - 20) (max y 20)),
                     angle := if inside then t else t + (pi + rj),
                     panic_timer := panic_timer b - 1\<rparr>,
                  snd (E k))"
    by (simp only: panic_update_explicit Let_def)
next
  let ?k = "nat MAX_PATIENCE + nat PANIC_DURATION"
  from panic_runs [OF assms, of "nat PANIC_DURATION"]
  have z: "panic_timer (run_ant c E ?k a) = 0"
    by (simp add: PANIC_DURATION_def)
  then show "let k = nat MAX_PATIENCE + nat PANIC_DURATION;
              b = run_ant c E k a;
              rw = fst (fst (E k));
              rj = snd (fst (E k));
              w = snd (E k)
          in panic_timer b = 0 \<and>
             tick_of c E k a =
               interact_with_objects c
                 (handle_boundaries rj
                    (move (start_panic (recover (on_trail b w) (decide c rw b w)))))
                 w"
    by (simp add: Let_def tick_of_def ant_update_def before_interaction_def)
qed


theorem panic_schedule_witness:
  "patience walker = MAX_PATIENCE \<and> panic_timer walker = 0 \<and>
   on_trail_at (640, 360) scented_env 150 walker \<and>
   panic_timer (run_ant (640, 360) scented_env 299 walker) = 0 \<and>
   patience (run_ant (640, 360) scented_env 299 walker) = 1 \<and>
   panic_timer (run_ant (640, 360) scented_env 300 walker) = 100 \<and>
   angle (fst (tick_of (640, 360) scented_env 300 walker)) = 3 / 5 \<and>
   pos (fst (tick_of (640, 360) scented_env 300 walker))
     = (550 + 3 / 2 * cos (3 / 5), 360 + 3 / 2 * sin (3 / 5)) \<and>
   panic_timer (fst (tick_of (640, 360) scented_env 300 walker)) = 99 \<and>
   snd (tick_of (640, 360) scented_env 300 walker) = scented_world \<and>
   panic_timer (run_ant (640, 360) scented_env 400 walker) = 0"
proof -
  let ?c = "(640, 360) :: vec"
  have w: "patience walker = MAX_PATIENCE" "panic_timer walker = 0"
    by (simp_all add: walker_def new_ant_def)
  note s = panic_schedule [OF w walker_on_trail [of ?c]]
  have n: "nat MAX_PATIENCE = 300" "nat PANIC_DURATION = 100"
    by (simp_all add: MAX_PATIENCE_def PANIC_DURATION_def)
  from s have 1: "panic_timer (run_ant ?c scented_env 299 walker) = 0"
    "patience (run_ant ?c scented_env 299 walker) = 1"
    by (simp_all add: n MAX_PATIENCE_def)
  from s have 2: "panic_timer (run_ant ?c scented_env 300 walker) = 100"
    by (simp add: n PANIC_DURATION_def)
  have b: "- 1 \<le> cos (3 / 5 :: real)" "cos (3 / 5 :: real) \<le> 1"
    "- 1 \<le> sin (3 / 5 :: real)" "sin (3 / 5 :: real) \<le> 1"
    by simp_all
  have inside: "20 < 550 + 3 / 2 * cos (3 / 5 :: real)" "550 + 3 / 2 * cos (3 / 5 :: real) < 1260"
    "20 < 360 + 3 / 2 * sin (3 / 5 :: real)" "360 + 3 / 2 * sin (3 / 5 :: real) < 700"
    using b by linarith+
  from walker_run [of 300 ?c]
  have r: "angle (run_ant ?c scented_env 300 walker) = 0"
    "speed (run_ant ?c scented_env 300 walker) = 3 / 2"
    "pos (run_ant ?c scented_env 300 walker) = (550, 360)"
    by simp_all
  have e: "fst (scented_env 300) = (1, 0)" "snd (scented_env 300) = scented_world"
    by (simp_all add: scented_env_parts)
  from s [THEN conjunct2, THEN conjunct2, THEN conjunct1, rule_format, of 0] inside
  have 3: "angle (fst (tick_of ?c scented_env 300 walker)) = 3 / 5"
    "pos (fst (tick_of ?c scented_env 300 walker))
       = (550 + 3 / 2 * cos (3 / 5), 360 + 3 / 2 * sin (3 / 5))"
    "panic_timer (fst (tick_of ?c scented_env 300 walker)) = 99"
    "snd (tick_of ?c scented_env 300 walker) = scented_world"
    by (simp_all add: n Let_def r e 2 WANDER_STRENGTH_def screen_defs)
  from s have 4: "panic_timer (run_ant ?c scented_env 400 walker) = 0"
    by (simp add: n Let_def)
  from walker_on_trail [of ?c] have 5: "on_trail_at ?c scented_env 150 walker"
    by (simp add: n)
  from w 1 2 3 4 5 show ?thesis by simp
qed

subsection \<open>The points that the simulation samples\<close>

text \<open>
  In a reachable state every agent stands in the play rectangle, so its three sensors and
  its own position have non-negative coordinates and address cells of the grid: there the
  truncation of \<open>int\<close> is the floor.
\<close>

lemma ant_update_in_play: "in_play (fst (ant_update c rw rj a w))"
  using handle_boundaries_in_play
  by (simp add: in_play_def ant_update_def panic_update_def before_interaction_def Let_def)

lemma reachable_in_play: "reachable s \<Longrightarrow> \<forall>a\<in>set (ants s). in_play a"
proof (induction rule: reachable.induct)
  case (init a0)
  show ?case by (simp add: init_simulation_def Let_def new_ant_def in_play_def screen_defs)
next
  case (click s x y)
  then show ?case by (simp add: add_food_def)
next
  case (tick s d)
  show ?case
    unfolding sim_update_ants
    by (rule update_ants_ant_inv [where P = in_play]) (use tick.IH ant_update_in_play in blast)+
qed

lemma reachable_samples_inside:
  assumes "reachable s" and "a \<in> set (ants s)"
  shows "0 \<le> fst (sensor_pos a off) \<and> 0 \<le> snd (sensor_pos a off) \<and>
         in_grid (py_int (fst (sensor_pos a off))) (py_int (snd (sensor_pos a off))) \<and>
         in_grid (py_int (fst (pos a))) (py_int (snd (pos a)))"
proof -
  from assms have p: "in_play a" using reachable_in_play by blast
  let ?t = "angle a + off"
  have c: "- 1 \<le> cos ?t" and s: "- 1 \<le> sin ?t" by simp_all
  from p c s have "0 \<le> fst (pos a) + 10 * cos ?t" "0 \<le> snd (pos a) + 10 * sin ?t"
    unfolding in_play_def by linarith+
  then have nonneg: "0 \<le> fst (sensor_pos a off)" "0 \<le> snd (sensor_pos a off)"
    by (simp_all add: sensor_pos_def ANT_SENSOR_DISTANCE_def vadd_def smul_def heading_def)
  from p have "in_grid (py_int (fst (sensor_pos a off))) (py_int (snd (sensor_pos a off)))"
    by (intro sensor_in_grid) (simp_all add: in_play_def)
  moreover from p have "in_grid (py_int (fst (pos a))) (py_int (snd (pos a)))"
    using py_int_inside [of "fst (pos a)" SCREEN_WIDTH] py_int_inside [of "snd (pos a)" SCREEN_HEIGHT]
    by (simp add: in_play_def in_grid_def)
  ultimately show ?thesis using nonneg by simp
qed

end
